theory Spec2Isabelle
  imports Main "HOL-Library.AList"
begin

section \<open>Runtime values\<close>

text \<open>
  Entities, database rows, filter operands and statement parameters of
  \<^verbatim>\<open>entityManager.ts\<close> are untyped JavaScript values. An object is an association
  list in insertion order; an array carries its elements and the named properties that an
  assignment such as \<^verbatim>\<open>targetEntity[selfIdColumnName] = id\<close> may add to it. Numbers
  are the integers that ids are. Keys that name members of the built-in prototypes
  (\<^verbatim>\<open>constructor\<close>, \<^verbatim>\<open>toString\<close>, ...) are not modelled.
\<close>

datatype jvalue =
    JUndefined
  | JNull
  | JBool bool
  | JNum int
  | JStr string
  | JArr "jvalue list" "(string \<times> jvalue) list"
  | JObj "(string \<times> jvalue) list"

datatype error =
    TypeError
  | RangeError
  | PropertyNotInCollection string string string
  | TargetIdColumnNameRequired string string string
  | InvalidFiltersPropertyNotFound "string option" string string
  | InvalidFiltersNotRelation "string option"
  | InvalidFiltersNoFilters
  | SelfIdColumnNotConfigured string
  | TargetIdColumnNotConfigured string
  | FieldShouldBeArray string
  | RelatedEntityNotExists jvalue string
  | IdRequired
  | EntityNotFound string string jvalue
  | PropertyNotFound string string string
  | OnlyManyRelation string
  | DataAccessorUnavailable string

definition digitChar :: "nat \<Rightarrow> char" where
  "digitChar d = ''0123456789'' ! (d mod 10)"

function showNat :: "nat \<Rightarrow> string" where
  "showNat n = (if n < 10 then [digitChar n] else showNat (n div 10) @ [digitChar (n mod 10)])"
  by pat_completeness auto
termination
  by (relation "measure id") auto

definition digitOf :: "char \<Rightarrow> nat option" where
  "digitOf c =
     map_of [(CHR ''0'', 0), (CHR ''1'', 1), (CHR ''2'', 2), (CHR ''3'', 3), (CHR ''4'', 4),
             (CHR ''5'', 5), (CHR ''6'', 6), (CHR ''7'', 7), (CHR ''8'', 8), (CHR ''9'', 9)] c"

fun readNat :: "nat \<Rightarrow> string \<Rightarrow> nat option" where
  "readNat acc [] = Some acc"
| "readNat acc (c # cs) = (case digitOf c of None \<Rightarrow> None | Some d \<Rightarrow> readNat (acc * 10 + d) cs)"

definition arrayIndex :: "string \<Rightarrow> nat option" where
  \<comment> \<open>a canonical array index: decimal, no leading zero, below \<open>2^32 - 1\<close>\<close>
  "arrayIndex k =
     (if k = [] then None
      else case readNat 0 k of
             None \<Rightarrow> None
           | Some i \<Rightarrow> if showNat i = k \<and> i < 4294967295 then Some i else None)"

definition entries :: "jvalue \<Rightarrow> (string \<times> jvalue) list" where
  "entries v =
     (case v of
        JObj kvs \<Rightarrow> kvs
      | JArr xs ps \<Rightarrow> zip (map showNat [0 ..< length xs]) xs @ ps
      | JStr s \<Rightarrow> zip (map showNat [0 ..< length s]) (map (\<lambda>c. JStr [c]) s)
      | _ \<Rightarrow> [])"

definition getProp :: "jvalue \<Rightarrow> string \<Rightarrow> jvalue" where
  \<comment> \<open>\<^verbatim>\<open>v[k]\<close> on a value that is neither null nor undefined\<close>
  "getProp v k =
     (case map_of (entries v) k of
        Some x \<Rightarrow> x
      | None \<Rightarrow>
          (case v of
             JArr xs ps \<Rightarrow> if k = ''length'' then JNum (int (length xs)) else JUndefined
           | JStr s \<Rightarrow> if k = ''length'' then JNum (int (length s)) else JUndefined
           | _ \<Rightarrow> JUndefined))"

definition keysOf :: "jvalue \<Rightarrow> string list" where
  \<comment> \<open>lodash \<^verbatim>\<open>keys\<close> / \<^verbatim>\<open>Object.keys\<close>: integer keys ascending, then the others
     in insertion order\<close>
  "keysOf v =
     (let ks = map fst (entries v)
      in map showNat (sort (List.map_filter arrayIndex ks)) @ filter (\<lambda>k. arrayIndex k = None) ks)"

definition setProp :: "jvalue \<Rightarrow> string \<Rightarrow> jvalue \<Rightarrow> error + jvalue" where
  \<comment> \<open>\<^verbatim>\<open>o[k] = x\<close> in strict mode, returning the updated \<open>o\<close>\<close>
  "setProp v k x =
     (case v of
        JObj kvs \<Rightarrow> Inr (JObj (AList.update k x kvs))
      | JArr xs ps \<Rightarrow>
          (case arrayIndex k of
             Some i \<Rightarrow>
               if i < length xs then Inr (JArr (xs[i := x]) ps)
               else Inr (JArr (xs @ replicate (i - length xs) JUndefined @ [x]) ps)
           | None \<Rightarrow>
               if k = ''length'' then
                 (case x of
                    JNum n \<Rightarrow>
                      if 0 \<le> n \<and> n < 4294967296
                      then Inr (JArr (take (nat n) xs @ replicate (nat n - length xs) JUndefined) ps)
                      else Inl RangeError
                  | _ \<Rightarrow> Inl RangeError)
               else Inr (JArr xs (AList.update k x ps)))
      | _ \<Rightarrow> Inl TypeError)"

fun truthy :: "jvalue \<Rightarrow> bool" where
  "truthy JUndefined = False"
| "truthy JNull = False"
| "truthy (JBool b) = b"
| "truthy (JNum n) = (n \<noteq> 0)"
| "truthy (JStr s) = (s \<noteq> [])"
| "truthy (JArr xs ps) = True"
| "truthy (JObj kvs) = True"

fun isObject :: "jvalue \<Rightarrow> bool" where
  "isObject (JArr xs ps) = True"
| "isObject (JObj kvs) = True"
| "isObject v = False"

fun isArray :: "jvalue \<Rightarrow> bool" where
  "isArray (JArr xs ps) = True"
| "isArray v = False"

fun isNullOrUndefined :: "jvalue \<Rightarrow> bool" where
  "isNullOrUndefined JUndefined = True"
| "isNullOrUndefined JNull = True"
| "isNullOrUndefined v = False"

definition keyOf :: "string option \<Rightarrow> string" where
  \<comment> \<open>a property key computed from an optional string: \<^verbatim>\<open>o[undefined]\<close> is
     \<^verbatim>\<open>o["undefined"]\<close>\<close>
  "keyOf k = (case k of None \<Rightarrow> ''undefined'' | Some s \<Rightarrow> s)"


definition present :: "string option \<Rightarrow> bool" where
  \<comment> \<open>truthiness of an optional string: undefined and the empty string are falsy\<close>
  "present k = (case k of None \<Rightarrow> False | Some s \<Rightarrow> s \<noteq> [])"

section \<open>Model schema, filters and find options\<close>

datatype relationKind = One | Many

record property =
  code :: string
  columnName :: "string option"
  relation :: "relationKind option"
  targetSingularCode :: "string option"
  targetIdColumnName :: "string option"
  selfIdColumnName :: "string option"
  linkTableName :: "string option"
  linkSchema :: "string option"

record model =
  namespace :: string
  singularCode :: string
  properties :: "property list"

text \<open>
  A filter node is tagged by its operator: a leaf \<^verbatim>\<open>{field, operator, value}\<close>, a
  boolean node \<^verbatim>\<open>{operator: and|or, filters}\<close> or a relational node
  \<^verbatim>\<open>{operator: exists|notExists, field, filters}\<close>. \<open>OtherOperator\<close> stands for the
  leaf operators the entity manager never inspects. An absent \<^verbatim>\<open>filters\<close> or
  \<^verbatim>\<open>field\<close> is \<open>None\<close>.
\<close>

datatype leafOperator = Eq | Ne | In | NotIn | OtherOperator string

datatype logicalOperator = And | Or

datatype existenceOperator = Exists | NotExists

datatype entityFilter =
    Leaf "string option" leafOperator jvalue
  | Logical logicalOperator "entityFilter list option"
  | Existence existenceOperator "string option" "entityFilter list option"

record findEntityOrderByOptions =
  field :: string
  desc :: "bool option"

record findEntityOptions =
  filters :: "entityFilter list option"
  orderBy :: "findEntityOrderByOptions list option"
  pagination :: jvalue
  selectProperties :: "string list option"
  keepNonPropertyFields :: "bool option"

section \<open>Server, storage and the helpers outside the entity manager\<close>

text \<open>
  The raw statements that \<^verbatim>\<open>entityManager.ts\<close> sends through
  \<^verbatim>\<open>server.queryDatabaseObject\<close>, each with the link schema, the link table and the
  column names it interpolates:
  \<^item> \<open>SelectWhereAny\<close>: \<^verbatim>\<open>SELECT * FROM t WHERE c = ANY($1::int[])\<close>;
  \<^item> \<open>InsertOnConflictDoNothing\<close>: \<^verbatim>\<open>INSERT INTO t (self, target) VALUES ($1, $2) ON CONFLICT DO NOTHING\<close>;
  \<^item> \<open>InsertWhereNotExists\<close>: \<^verbatim>\<open>INSERT INTO t (self, target) SELECT $1, $2 WHERE NOT EXISTS
    (SELECT self, target FROM t WHERE self=$1 AND target=$2)\<close>;
  \<^item> \<open>DeleteWhere\<close>: \<^verbatim>\<open>DELETE FROM t WHERE c = $1\<close>;
  \<^item> \<open>DeleteWherePair\<close>: \<^verbatim>\<open>DELETE FROM t WHERE self=$1 AND target=$2\<close>.
\<close>

datatype statement =
    SelectWhereAny "string option" string "string option"
  | InsertOnConflictDoNothing "string option" string "string option" "string option"
  | InsertWhereNotExists "string option" string "string option" "string option"
  | DeleteWhere "string option" string "string option"
  | DeleteWherePair "string option" string "string option" "string option"

datatype call =
    GetModel "string option"
  | GetDataAccessor "string option"
  | Find string findEntityOptions
  | FindById string jvalue
  | Create string jvalue
  | UpdateById string jvalue jvalue
  | DeleteById string jvalue
  | QueryDatabaseObject statement "jvalue list"

type_synonym plugin = string

datatype event =
    EntityCreate string string jvalue
  | EntityUpdate string string jvalue jvalue jvalue
  | EntityDelete string string jvalue
  | EntityAddRelations string string jvalue string "jvalue list"
  | EntityRemoveRelations string string jvalue string "jvalue list"

text \<open>
  The functions that \<^verbatim>\<open>entityManager.ts\<close> imports from files outside the sources at
  hand (\<^verbatim>\<open>rapidUtility\<close>, \<^verbatim>\<open>entityMapper\<close>, \<^verbatim>\<open>propertyMapper\<close>,
  \<^verbatim>\<open>entityHelpers\<close>) and the behaviour of the storage backend that neither the code nor
  its specification fixes are parameters of the development: every definition below takes
  them as its first argument and every theorem holds for all of them.
  \<^item> \<open>looseEq\<close> is JavaScript's \<^verbatim>\<open>==\<close> on ids;
  \<^item> \<open>holdsOther\<close> is what the storage accessor does with a filter node that is neither a
    containment leaf nor a boolean node;
  \<^item> \<open>arrange\<close> orders and paginates the rows that a find selected;
  \<^item> \<open>conflicts\<close> says whether inserting a row into a link table violates one of its
    unique constraints.
\<close>

record externals =
  isRelationProperty :: "property \<Rightarrow> bool"
  mapDbRowToEntity :: "model option \<Rightarrow> jvalue \<Rightarrow> bool option \<Rightarrow> jvalue"
  mapEntityToDbRow :: "model \<Rightarrow> jvalue \<Rightarrow> jvalue"
  mapPropertyNameToColumnName :: "model \<Rightarrow> string \<Rightarrow> string"
  getEntityPartChanges :: "jvalue \<Rightarrow> jvalue \<Rightarrow> jvalue"
  looseEq :: "jvalue \<Rightarrow> jvalue \<Rightarrow> bool"
  holdsOther :: "jvalue \<Rightarrow> entityFilter \<Rightarrow> bool"
  arrange :: "findEntityOrderByOptions list option \<Rightarrow> jvalue \<Rightarrow> jvalue list \<Rightarrow> jvalue list"
  conflicts :: "string option \<times> string \<Rightarrow> jvalue list \<Rightarrow> jvalue \<Rightarrow> bool"

text \<open>
  The state that the server holds: the model registry behind \<^verbatim>\<open>server.getModel\<close>, the
  collections that \<^verbatim>\<open>server.getDataAccessor\<close> serves (each with the model its
  accessor reports), their rows, the link tables, the next id the storage assigns, the
  events emitted so far and the log of every call made on the server and its accessors.
\<close>

record world =
  models :: "(string \<times> model) list"
  accessors :: "(string \<times> model) list"
  tables :: "(string \<times> jvalue list) list"
  linkTables :: "((string option \<times> string) \<times> jvalue list) list"
  nextId :: int
  events :: "(event \<times> plugin option) list"
  calls :: "call list"

type_synonym 'a io = "world \<Rightarrow> (error + 'a) \<times> world"

definition ret :: "'a \<Rightarrow> 'a io" where
  "ret x s = (Inr x, s)"

definition throw :: "error \<Rightarrow> 'a io" where
  "throw e s = (Inl e, s)"

definition bnd :: "'a io \<Rightarrow> ('a \<Rightarrow> 'b io) \<Rightarrow> 'b io" where
  \<comment> \<open>sequencing: an exception ends the computation and keeps the effects made so far\<close>
  "bnd m f s = (case m s of (Inl e, s') \<Rightarrow> (Inl e, s') | (Inr x, s') \<Rightarrow> f x s')"

definition lift :: "error + 'a \<Rightarrow> 'a io" where
  "lift r s = (r, s)"

definition logCall :: "call \<Rightarrow> unit io" where
  "logCall c s = (Inr (), s\<lparr>calls := calls s @ [c]\<rparr>)"

definition rowsOf :: "world \<Rightarrow> string \<Rightarrow> jvalue list" where
  "rowsOf s c = (case map_of (tables s) c of None \<Rightarrow> [] | Some rows \<Rightarrow> rows)"

definition linkRowsOf :: "world \<Rightarrow> string option \<times> string \<Rightarrow> jvalue list" where
  "linkRowsOf s t = (case map_of (linkTables s) t of None \<Rightarrow> [] | Some rows \<Rightarrow> rows)"

definition getModel :: "string option \<Rightarrow> model option io" where
  \<comment> \<open>\<^verbatim>\<open>server.getModel({singularCode})\<close>\<close>
  "getModel c =
     bnd (logCall (GetModel c))
       (\<lambda>_ s. (Inr (case c of None \<Rightarrow> None | Some k \<Rightarrow> map_of (models s) k), s))"

definition getDataAccessor :: "string option \<Rightarrow> (string \<times> model) io" where
  \<comment> \<open>\<^verbatim>\<open>server.getDataAccessor({singularCode})\<close>; an accessor is the code of its
     collection and its model\<close>
  "getDataAccessor c =
     bnd (logCall (GetDataAccessor c))
       (\<lambda>_ s. case c of
                 None \<Rightarrow> (Inl (DataAccessorUnavailable ''undefined''), s)
               | Some k \<Rightarrow>
                   (case map_of (accessors s) k of
                      None \<Rightarrow> (Inl (DataAccessorUnavailable k), s)
                    | Some m \<Rightarrow> (Inr (k, m), s)))"

definition emitEvent :: "event \<Rightarrow> plugin option \<Rightarrow> unit io" where
  "emitEvent ev pl s = (Inr (), s\<lparr>events := events s @ [(ev, pl)]\<rparr>)"


subsection \<open>The Data Accessor\<close>

text \<open>
  Modelled from the spec: the Data Accessor (\<^verbatim>\<open>IRpdDataAccessor\<close>, the physical
  storage accessor) is not among the sources. Its \<^verbatim>\<open>find\<close> selects the rows of its
  collection that satisfy every filter, orders and paginates them, and restricts them to the
  requested columns (all columns when none is requested; storage order when neither an order nor
  a page is requested). A containment leaf compares the
  column with the operand: \<^verbatim>\<open>eq\<close> and \<^verbatim>\<open>ne\<close> by equality, \<^verbatim>\<open>in\<close> and
  \<^verbatim>\<open>notIn\<close> by membership in the operand array; boolean nodes combine their children.
  The accessor is relation-unaware: existence nodes and the remaining operators are left to
  \<open>holdsOther\<close>.
\<close>

fun rowMatches :: "externals \<Rightarrow> jvalue \<Rightarrow> entityFilter \<Rightarrow> bool" where
  "rowMatches X row (Leaf f Eq v) = (getProp row (keyOf f) = v)"
| "rowMatches X row (Leaf f Ne v) = (getProp row (keyOf f) \<noteq> v)"
| "rowMatches X row (Leaf f In v) =
     (case v of JArr vs ps \<Rightarrow> getProp row (keyOf f) \<in> set vs | _ \<Rightarrow> holdsOther X row (Leaf f In v))"
| "rowMatches X row (Leaf f NotIn v) =
     (case v of JArr vs ps \<Rightarrow> getProp row (keyOf f) \<notin> set vs | _ \<Rightarrow> holdsOther X row (Leaf f NotIn v))"
| "rowMatches X row (Leaf f (OtherOperator opr) v) = holdsOther X row (Leaf f (OtherOperator opr) v)"
| "rowMatches X row (Logical And None) = True"
| "rowMatches X row (Logical And (Some fs)) = (\<forall>g \<in> set fs. rowMatches X row g)"
| "rowMatches X row (Logical Or None) = False"
| "rowMatches X row (Logical Or (Some fs)) = (\<exists>g \<in> set fs. rowMatches X row g)"
| "rowMatches X row (Existence opr f fs) = holdsOther X row (Existence opr f fs)"

definition projectRow :: "string list option \<Rightarrow> jvalue \<Rightarrow> jvalue" where
  "projectRow ps row =
     (case ps of
        None \<Rightarrow> row
      | Some [] \<Rightarrow> row
      | Some cols \<Rightarrow> JObj (filter (\<lambda>kv. fst kv \<in> set cols) (entries row)))"

definition selectRows :: "externals \<Rightarrow> findEntityOptions \<Rightarrow> jvalue list \<Rightarrow> jvalue list" where
  "selectRows X opts rows =
     (let selected =
            filter (\<lambda>row. \<forall>g \<in> set (case filters opts of None \<Rightarrow> [] | Some fs \<Rightarrow> fs). rowMatches X row g)
              rows
      in map (projectRow (selectProperties opts))
           (if orderBy opts = None \<and> isNullOrUndefined (pagination opts) then selected
            else arrange X (orderBy opts) (pagination opts) selected))"

definition accessorFind :: "externals \<Rightarrow> string \<Rightarrow> findEntityOptions \<Rightarrow> jvalue list io" where
  "accessorFind X c opts =
     bnd (logCall (Find c opts)) (\<lambda>_ s. (Inr (selectRows X opts (rowsOf s c)), s))"

text \<open>
  Modelled from the spec: \<^verbatim>\<open>findById(id)->row|null\<close> returns the first row of the
  collection whose \<^verbatim>\<open>id\<close> is the given one.
\<close>

definition accessorFindById :: "string \<Rightarrow> jvalue \<Rightarrow> jvalue io" where
  "accessorFindById c i =
     bnd (logCall (FindById c i))
       (\<lambda>_ s. (Inr (case List.find (\<lambda>row. getProp row ''id'' = i) (rowsOf s c) of
                       None \<Rightarrow> JNull
                     | Some row \<Rightarrow> row), s))"

text \<open>
  Modelled from the spec: \<^verbatim>\<open>create(row)->row\<close> persists the row and yields the
  entity's id: a row that carries no id receives the next id of the storage.
\<close>

definition accessorCreate :: "string \<Rightarrow> jvalue \<Rightarrow> jvalue io" where
  "accessorCreate c row =
     bnd (logCall (Create c row))
       (\<lambda>_ s. case (if isNullOrUndefined (getProp row ''id'')
                     then setProp row ''id'' (JNum (nextId s)) else Inr row) of
                 Inl e \<Rightarrow> (Inl e, s)
               | Inr newRow \<Rightarrow>
                   (Inr newRow,
                    s\<lparr>tables := AList.update c (rowsOf s c @ [newRow]) (tables s),
                      nextId := nextId s + 1\<rparr>))"

text \<open>
  Modelled from the spec: \<^verbatim>\<open>updateById(id, partial)->row\<close> overwrites the columns
  named in the partial row on the rows with that id and returns the updated row.
\<close>

definition mergeRow :: "jvalue \<Rightarrow> jvalue \<Rightarrow> jvalue" where
  "mergeRow row partial = JObj (fold (\<lambda>kv. AList.update (fst kv) (snd kv)) (entries partial) (entries row))"

definition accessorUpdateById :: "string \<Rightarrow> jvalue \<Rightarrow> jvalue \<Rightarrow> jvalue io" where
  "accessorUpdateById c i partial =
     bnd (logCall (UpdateById c i partial))
       (\<lambda>_ s. let rows = map (\<lambda>row. if getProp row ''id'' = i then mergeRow row partial else row) (rowsOf s c)
              in (Inr (case List.find (\<lambda>row. getProp row ''id'' = i) rows of
                         None \<Rightarrow> JUndefined
                       | Some row \<Rightarrow> row),
                  s\<lparr>tables := AList.update c rows (tables s)\<rparr>))"

text \<open>
  Modelled from the spec: \<^verbatim>\<open>deleteById(id)->void\<close> removes the rows with that id.
\<close>

definition accessorDeleteById :: "string \<Rightarrow> jvalue \<Rightarrow> unit io" where
  "accessorDeleteById c i =
     bnd (logCall (DeleteById c i))
       (\<lambda>_ s. (Inr (),
               s\<lparr>tables := AList.update c (filter (\<lambda>row. getProp row ''id'' \<noteq> i) (rowsOf s c)) (tables s)\<rparr>))"

subsection \<open>Raw statements on link tables\<close>

text \<open>
  The statements are the source's own; their meaning on a link table is SQL's. A comparison
  with NULL never holds, a parameter that is missing or undefined is sent as NULL, a link
  table that the state does not list is empty, and a data-modifying statement returns no
  rows. Ids are compared as values: the textual and the numeric form of an id are different
  values here.
\<close>

definition sqlEq :: "jvalue \<Rightarrow> jvalue \<Rightarrow> bool" where
  "sqlEq a b = (a = b \<and> \<not> isNullOrUndefined a)"

definition param :: "jvalue list \<Rightarrow> nat \<Rightarrow> jvalue" where
  "param ps n = (if n < length ps \<and> ps ! n \<noteq> JUndefined then ps ! n else JNull)"

definition anyOf :: "jvalue \<Rightarrow> jvalue \<Rightarrow> bool" where
  \<comment> \<open>\<^verbatim>\<open>c = ANY($1)\<close>\<close>
  "anyOf c arr = (case arr of JArr vs ps \<Rightarrow> list_ex (sqlEq c) vs | _ \<Rightarrow> False)"

definition linkRow :: "string option \<Rightarrow> string option \<Rightarrow> jvalue \<Rightarrow> jvalue \<Rightarrow> jvalue" where
  "linkRow selfCol targetCol a b = JObj (AList.update (keyOf targetCol) b [(keyOf selfCol, a)])"

definition setLinkRows :: "string option \<times> string \<Rightarrow> jvalue list \<Rightarrow> world \<Rightarrow> world" where
  "setLinkRows t rows s = s\<lparr>linkTables := AList.update t rows (linkTables s)\<rparr>"

fun runStatement :: "externals \<Rightarrow> statement \<Rightarrow> jvalue list \<Rightarrow> world \<Rightarrow> jvalue list \<times> world" where
  "runStatement X (SelectWhereAny sch t c) ps s =
     (filter (\<lambda>row. anyOf (getProp row (keyOf c)) (param ps 0)) (linkRowsOf s (sch, t)), s)"
| "runStatement X (InsertOnConflictDoNothing sch t selfCol targetCol) ps s =
     (let rows = linkRowsOf s (sch, t); new = linkRow selfCol targetCol (param ps 0) (param ps 1)
      in if conflicts X (sch, t) rows new then ([], s)
         else ([], setLinkRows (sch, t) (rows @ [new]) s))"
| "runStatement X (InsertWhereNotExists sch t selfCol targetCol) ps s =
     (let rows = linkRowsOf s (sch, t); new = linkRow selfCol targetCol (param ps 0) (param ps 1)
      in if list_ex (\<lambda>row. sqlEq (getProp row (keyOf selfCol)) (param ps 0)
                              \<and> sqlEq (getProp row (keyOf targetCol)) (param ps 1)) rows
         then ([], s)
         else ([], setLinkRows (sch, t) (rows @ [new]) s))"
| "runStatement X (DeleteWhere sch t c) ps s =
     ([], setLinkRows (sch, t)
            (filter (\<lambda>row. \<not> sqlEq (getProp row (keyOf c)) (param ps 0)) (linkRowsOf s (sch, t))) s)"
| "runStatement X (DeleteWherePair sch t selfCol targetCol) ps s =
     ([], setLinkRows (sch, t)
            (filter (\<lambda>row. \<not> (sqlEq (getProp row (keyOf selfCol)) (param ps 0)
                             \<and> sqlEq (getProp row (keyOf targetCol)) (param ps 1)))
               (linkRowsOf s (sch, t))) s)"

definition queryDatabaseObject :: "externals \<Rightarrow> statement \<Rightarrow> jvalue list \<Rightarrow> jvalue list io" where
  "queryDatabaseObject X stmt ps =
     bnd (logCall (QueryDatabaseObject stmt ps))
       (\<lambda>_ s. case runStatement X stmt ps s of (rows, s') \<Rightarrow> (Inr rows, s'))"


section \<open>The filter rewriter\<close>

definition findProperty :: "model \<Rightarrow> string option \<Rightarrow> property option" where
  \<comment> \<open>\<^verbatim>\<open>find(model.properties, property => property.code === field)\<close>\<close>
  "findProperty m f = List.find (\<lambda>p. Some (code p) = f) (properties m)"

definition subqueryOptions :: "entityFilter list option \<Rightarrow> string list \<Rightarrow> findEntityOptions" where
  \<comment> \<open>\<^verbatim>\<open>{filters: filter.filters, properties: [...]}\<close>\<close>
  "subqueryOptions fs cols =
     \<lparr>filters = fs, orderBy = None, pagination = JUndefined,
      selectProperties = Some cols, keepNonPropertyFields = None\<rparr>"

definition containment :: "existenceOperator \<Rightarrow> leafOperator" where
  \<comment> \<open>\<^verbatim>\<open>operator === "exists" ? "in" : "notIn"\<close>\<close>
  "containment opr = (if opr = Exists then In else NotIn)"

definition pluck :: "string \<Rightarrow> jvalue list \<Rightarrow> jvalue" where
  \<comment> \<open>\<^verbatim>\<open>map(rows, row => row[k])\<close>\<close>
  "pluck k rows = JArr (map (\<lambda>row. getProp row k) rows) []"

definition relatedEntityIdFilter ::
  "existenceOperator \<Rightarrow> property \<Rightarrow> entityFilter list option \<Rightarrow> entityFilter option" where
  \<comment> \<open>lines 238-263: the rewrite without a subquery, when there is one\<close>
  "relatedEntityIdFilter opr relationProperty fs =
     (case fs of
        Some [Leaf fld lop v] \<Rightarrow>
          if (lop = Eq \<or> lop = In) \<and> fld = Some ''id''
          then Some (Leaf (targetIdColumnName relationProperty)
                       (if opr = Exists then lop else if lop = Eq then Ne else NotIn) v)
          else None
      | _ \<Rightarrow> None)"

definition oneRelationSubquery ::
  "externals \<Rightarrow> existenceOperator \<Rightarrow> property \<Rightarrow> entityFilter list option \<Rightarrow> entityFilter io" where
  \<comment> \<open>lines 265-277\<close>
  "oneRelationSubquery X opr relationProperty fs =
     bnd (getDataAccessor (targetSingularCode relationProperty)) (\<lambda>dataAccessor.
     bnd (accessorFind X (fst dataAccessor) (subqueryOptions fs [''id''])) (\<lambda>entities.
     ret (Leaf (targetIdColumnName relationProperty) (containment opr) (pluck ''id'' entities))))"

definition manyRelationSubquery ::
  "externals \<Rightarrow> existenceOperator \<Rightarrow> property \<Rightarrow> entityFilter list option \<Rightarrow> entityFilter io" where
  \<comment> \<open>lines 279-299: many relation without link table\<close>
  "manyRelationSubquery X opr relationProperty fs =
     (if \<not> present (selfIdColumnName relationProperty)
      then throw (SelfIdColumnNotConfigured (code relationProperty))
      else
        bnd (getDataAccessor (targetSingularCode relationProperty)) (\<lambda>targetEntityDataAccessor.
        bnd (accessorFind X (fst targetEntityDataAccessor)
               (subqueryOptions fs [keyOf (selfIdColumnName relationProperty)])) (\<lambda>targetEntities.
        ret (Leaf (Some ''id'') (containment opr)
               (pluck (keyOf (selfIdColumnName relationProperty)) targetEntities)))))"

definition linkTableSubquery ::
  "externals \<Rightarrow> existenceOperator \<Rightarrow> property \<Rightarrow> entityFilter list option \<Rightarrow> entityFilter io" where
  \<comment> \<open>lines 301-335: many relation with link table\<close>
  "linkTableSubquery X opr relationProperty fs =
     (if \<not> present (selfIdColumnName relationProperty)
      then throw (SelfIdColumnNotConfigured (code relationProperty))
      else if \<not> present (targetIdColumnName relationProperty)
      then throw (TargetIdColumnNotConfigured (code relationProperty))
      else
        bnd (getDataAccessor (targetSingularCode relationProperty)) (\<lambda>targetEntityDataAccessor.
        bnd (accessorFind X (fst targetEntityDataAccessor) (subqueryOptions fs [''id''])) (\<lambda>targetEntities.
        bnd (queryDatabaseObject X
               (SelectWhereAny (linkSchema relationProperty) (keyOf (linkTableName relationProperty))
                  (targetIdColumnName relationProperty))
               [pluck ''id'' targetEntities]) (\<lambda>links.
        ret (Leaf (Some ''id'') (containment opr)
               (pluck (keyOf (selfIdColumnName relationProperty)) links))))))"

definition replaceExistence ::
  "externals \<Rightarrow> model \<Rightarrow> existenceOperator \<Rightarrow> string option \<Rightarrow> entityFilter list option \<Rightarrow> entityFilter io" where
  \<comment> \<open>lines 213-336: the filter pushed for an \<^verbatim>\<open>exists\<close> or \<^verbatim>\<open>notExists\<close> node\<close>
  "replaceExistence X m opr f fs =
     (case findProperty m f of
        None \<Rightarrow> throw (InvalidFiltersPropertyNotFound f (namespace m) (singularCode m))
      | Some relationProperty \<Rightarrow>
          if \<not> isRelationProperty X relationProperty then throw (InvalidFiltersNotRelation f)
          else if fs = None \<or> fs = Some [] then throw InvalidFiltersNoFilters
          else if relation relationProperty = Some One then
            (case relatedEntityIdFilter opr relationProperty fs of
               Some replaced \<Rightarrow> ret replaced
             | None \<Rightarrow> oneRelationSubquery X opr relationProperty fs)
          else if \<not> present (linkTableName relationProperty)
          then manyRelationSubquery X opr relationProperty fs
          else linkTableSubquery X opr relationProperty fs)"

text \<open>
  \<^verbatim>\<open>replaceFiltersWithFiltersOperator\<close> (lines 194-342). The loop over the filters is
  \<open>replaceEach\<close> and its body is \<open>replaceFilter\<close>; the source updates an
  \<^verbatim>\<open>and\<close>/\<^verbatim>\<open>or\<close> node in place, the model returns the updated node.
\<close>

fun replaceFiltersWithFiltersOperator ::
      "externals \<Rightarrow> model \<Rightarrow> entityFilter list option \<Rightarrow> entityFilter list io"
  and replaceEach :: "externals \<Rightarrow> model \<Rightarrow> entityFilter list \<Rightarrow> entityFilter list io"
  and replaceFilter :: "externals \<Rightarrow> model \<Rightarrow> entityFilter \<Rightarrow> entityFilter io"
where
  "replaceFiltersWithFiltersOperator X m None = ret []"
| "replaceFiltersWithFiltersOperator X m (Some fs) = replaceEach X m fs"
| "replaceEach X m [] = ret []"
| "replaceEach X m (f # fs) =
     bnd (replaceFilter X m f) (\<lambda>replaced.
     bnd (replaceEach X m fs) (\<lambda>replacedFilters. ret (replaced # replacedFilters)))"
| "replaceFilter X m (Logical opr fs) =
     bnd (replaceFiltersWithFiltersOperator X m fs) (\<lambda>fs'. ret (Logical opr (Some fs')))"
| "replaceFilter X m (Existence opr f fs) = replaceExistence X m opr f fs"
| "replaceFilter X m (Leaf f lop v) = ret (Leaf f lop v)"

fun hasExistence :: "entityFilter \<Rightarrow> bool" where
  "hasExistence (Leaf f lop v) = False"
| "hasExistence (Logical opr None) = False"
| "hasExistence (Logical opr (Some fs)) = (\<exists>g \<in> set fs. hasExistence g)"
| "hasExistence (Existence opr f fs) = True"

text \<open>
  What a rewritten node looks like: a leaf is kept, a boolean node keeps its operator over
  the rewritten children, and a relational node has become a leaf whose operator is one of
  \<^verbatim>\<open>eq\<close>, \<^verbatim>\<open>ne\<close>, \<^verbatim>\<open>in\<close>, \<^verbatim>\<open>notIn\<close>.
\<close>

fun rewrittenAs :: "entityFilter \<Rightarrow> entityFilter \<Rightarrow> bool" where
  "rewrittenAs (Leaf f lop v) g = (g = Leaf f lop v)"
| "rewrittenAs (Logical opr None) g = (g = Logical opr (Some []))"
| "rewrittenAs (Logical opr (Some fs)) g =
     (case g of Logical opr' (Some gs) \<Rightarrow> opr' = opr \<and> list_all2 rewrittenAs fs gs | _ \<Rightarrow> False)"
| "rewrittenAs (Existence opr f fs) g =
     (case g of Leaf c lop v \<Rightarrow> lop = Eq \<or> lop = Ne \<or> lop = In \<or> lop = NotIn | _ \<Rightarrow> False)"

section \<open>Finding entities\<close>

definition convertToDataAccessOrderBy ::
  "externals \<Rightarrow> model \<Rightarrow> findEntityOrderByOptions list option \<Rightarrow> findEntityOrderByOptions list option" where
  "convertToDataAccessOrderBy X m orderByList =
     (case orderByList of
        None \<Rightarrow> None
      | Some l \<Rightarrow>
          Some (map (\<lambda>ob. \<lparr>field = mapPropertyNameToColumnName X m (field ob),
                            desc = Some (desc ob = Some True)\<rparr>) l))"

definition assign :: "jvalue \<Rightarrow> string \<Rightarrow> jvalue \<Rightarrow> jvalue io" where
  \<comment> \<open>\<^verbatim>\<open>o[k] = x\<close> as a step of a computation\<close>
  "assign v k x = lift (setProp v k x)"

fun forEachIO :: "('a \<Rightarrow> 'b io) \<Rightarrow> 'a list \<Rightarrow> 'b list io" where
  \<comment> \<open>a loop that maps each element in turn and stops at the first exception\<close>
  "forEachIO f [] = ret []"
| "forEachIO f (x # xs) = bnd (f x) (\<lambda>y. bnd (forEachIO f xs) (\<lambda>ys. ret (y # ys)))"

definition uniq :: "'a list \<Rightarrow> 'a list" where
  \<comment> \<open>lodash \<^verbatim>\<open>uniq\<close>: the first occurrence of each element, in order\<close>
  "uniq xs = rev (fold (\<lambda>x acc. if x \<in> set acc then acc else x # acc) xs [])"

definition noOptions :: findEntityOptions where
  "noOptions = \<lparr>filters = None, orderBy = None, pagination = JUndefined,
                selectProperties = None, keepNonPropertyFields = None\<rparr>"

fun selectedProperties ::
  "externals \<Rightarrow> model \<Rightarrow> string list \<Rightarrow> error + (string list \<times> property list)" where
  \<comment> \<open>lines 45-69: \<open>fieldsToSelect\<close> and \<open>relationPropertiesToSelect\<close>\<close>
  "selectedProperties X m [] = Inr ([], [])"
| "selectedProperties X m (propertyCode # rest) =
     (case List.find (\<lambda>e. code e = propertyCode) (properties m) of
        None \<Rightarrow> Inl (PropertyNotInCollection (namespace m) (singularCode m) propertyCode)
      | Some p \<Rightarrow>
          (case (if isRelationProperty X p then
                   (if relation p = Some One \<and> \<not> present (linkTableName p) then
                      (if \<not> present (targetIdColumnName p)
                       then Inl (TargetIdColumnNameRequired propertyCode (namespace m) (singularCode m))
                       else Inr ([keyOf (targetIdColumnName p)], [p]))
                    else Inr ([], [p]))
                 else Inr ([if present (columnName p) then keyOf (columnName p) else code p], []))
           of
             Inl e \<Rightarrow> Inl e
           | Inr (fs, ps) \<Rightarrow>
               (case selectedProperties X m rest of
                  Inl e \<Rightarrow> Inl e
                | Inr (fs', ps') \<Rightarrow> Inr (fs @ fs', ps @ ps'))))"

definition findManyRelationLinksViaLinkTable ::
  "externals \<Rightarrow> model \<Rightarrow> property \<Rightarrow> jvalue list \<Rightarrow> jvalue list io" where
  "findManyRelationLinksViaLinkTable X targetModel relationProperty entityIds =
     bnd (queryDatabaseObject X
            (SelectWhereAny (linkSchema relationProperty) (keyOf (linkTableName relationProperty))
               (selfIdColumnName relationProperty))
            [JArr entityIds []]) (\<lambda>links.
     bnd (getDataAccessor (Some (singularCode targetModel))) (\<lambda>dataAccessor.
     bnd (accessorFind X (fst dataAccessor)
            (noOptions\<lparr>filters := Some [Leaf (Some ''id'') In
               (pluck (keyOf (targetIdColumnName relationProperty)) links)]\<rparr>)) (\<lambda>targetEntities.
     forEachIO (\<lambda>link.
         assign link ''targetEntity''
           (case List.find (\<lambda>e. looseEq X (getProp e ''id'')
                                   (getProp link (keyOf (targetIdColumnName relationProperty))))
                   targetEntities of
              None \<Rightarrow> JUndefined
            | Some e \<Rightarrow> e))
       links)))"

definition findManyRelatedEntitiesViaIdPropertyCode ::
  "externals \<Rightarrow> model \<Rightarrow> property \<Rightarrow> jvalue list \<Rightarrow> jvalue list io" where
  "findManyRelatedEntitiesViaIdPropertyCode X m relationProperty entityIds =
     bnd (getDataAccessor (targetSingularCode relationProperty)) (\<lambda>dataAccessor.
     accessorFind X (fst dataAccessor)
       (noOptions\<lparr>filters := Some [Leaf (selfIdColumnName relationProperty) In (JArr entityIds [])]\<rparr>))"

definition findOneRelatedEntitiesViaIdPropertyCode ::
  "externals \<Rightarrow> model \<Rightarrow> property \<Rightarrow> jvalue list \<Rightarrow> jvalue list io" where
  "findOneRelatedEntitiesViaIdPropertyCode X m relationProperty targetEntityIds =
     bnd (getDataAccessor (targetSingularCode relationProperty)) (\<lambda>dataAccessor.
     accessorFind X (fst dataAccessor)
       (noOptions\<lparr>filters := Some [Leaf (Some ''id'') In (JArr targetEntityIds [])]\<rparr>))"

definition expandRelation ::
  "externals \<Rightarrow> model \<Rightarrow> jvalue list \<Rightarrow> property \<Rightarrow> jvalue list \<Rightarrow> jvalue list io" where
  \<comment> \<open>lines 90-162: the body of the loop over \<open>relationPropertiesToSelect\<close>; it returns
     the base rows with the relation attached\<close>
  "expandRelation X m entityIds relationProperty entities =
     (let isManyRelation = (relation relationProperty = Some Many)
      in
      if present (linkTableName relationProperty) then
        bnd (getModel (targetSingularCode relationProperty)) (\<lambda>targetModel.
          case targetModel of
            None \<Rightarrow> ret entities
          | Some tm \<Rightarrow>
              if isManyRelation then
                bnd (findManyRelationLinksViaLinkTable X tm relationProperty entityIds) (\<lambda>relationLinks.
                forEachIO (\<lambda>entity.
                    assign entity (code relationProperty)
                      (JArr (map (\<lambda>link. mapDbRowToEntity X (Some tm) (getProp link ''targetEntity'') (Some False))
                               (filter (\<lambda>link. looseEq X (getProp link (keyOf (selfIdColumnName relationProperty)))
                                                  (getProp entity ''id''))
                                  relationLinks)) []))
                  entities)
              else ret entities)
      else
        bnd (if isManyRelation
             then findManyRelatedEntitiesViaIdPropertyCode X m relationProperty entityIds
             else findOneRelatedEntitiesViaIdPropertyCode X m relationProperty
                    (uniq (filter (\<lambda>v. \<not> isNullOrUndefined v)
                             (map (\<lambda>entity. getProp entity (keyOf (targetIdColumnName relationProperty)))
                                entities)))) (\<lambda>relatedEntities.
        bnd (getModel (targetSingularCode relationProperty)) (\<lambda>targetModel.
        forEachIO (\<lambda>entity.
            if isManyRelation then
              assign entity (code relationProperty)
                (JArr (map (\<lambda>item. mapDbRowToEntity X targetModel item (Some False))
                         (filter (\<lambda>relatedEntity.
                                    looseEq X (getProp relatedEntity (keyOf (selfIdColumnName relationProperty)))
                                      (getProp entity ''id''))
                            relatedEntities)) [])
            else
              assign entity (code relationProperty)
                (mapDbRowToEntity X targetModel
                   (case List.find (\<lambda>relatedEntity.
                                      looseEq X (getProp relatedEntity ''id'')
                                        (getProp entity (keyOf (targetIdColumnName relationProperty))))
                           relatedEntities of
                      None \<Rightarrow> JUndefined
                    | Some e \<Rightarrow> e)
                   (Some False)))
          entities)))"

fun expandRelations ::
  "externals \<Rightarrow> model \<Rightarrow> jvalue list \<Rightarrow> property list \<Rightarrow> jvalue list \<Rightarrow> jvalue list io" where
  "expandRelations X m entityIds [] entities = ret entities"
| "expandRelations X m entityIds (relationProperty # rest) entities =
     bnd (expandRelation X m entityIds relationProperty entities) (expandRelations X m entityIds rest)"

definition findEntities ::
  "externals \<Rightarrow> string \<times> model \<Rightarrow> findEntityOptions \<Rightarrow> jvalue list io" where
  "findEntities X dataAccessor options =
     (let m = snd dataAccessor in
      bnd (lift (case selectProperties options of
                   None \<Rightarrow> Inr ([], [])
                 | Some codes \<Rightarrow> selectedProperties X m codes)) (\<lambda>(fieldsToSelect, relationPropertiesToSelect).
      bnd (replaceFiltersWithFiltersOperator X m (filters options)) (\<lambda>processedFilters.
      bnd (accessorFind X (fst dataAccessor)
             \<lparr>filters = Some processedFilters,
              orderBy = convertToDataAccessOrderBy X m (orderBy options),
              pagination = pagination options,
              selectProperties = Some fieldsToSelect,
              keepNonPropertyFields = None\<rparr>) (\<lambda>entities.
      if entities = [] then ret entities
      else
        bnd (expandRelations X m (map (\<lambda>e. getProp e ''id'') entities)
               relationPropertiesToSelect entities) (\<lambda>expanded.
        ret (map (\<lambda>item. mapDbRowToEntity X (Some m) item (keepNonPropertyFields options)) expanded))))))"

definition firstOf :: "jvalue list \<Rightarrow> jvalue" where
  \<comment> \<open>lodash \<^verbatim>\<open>first\<close>\<close>
  "firstOf xs = (case xs of [] \<Rightarrow> JUndefined | x # _ \<Rightarrow> x)"

definition findEntity :: "externals \<Rightarrow> string \<times> model \<Rightarrow> findEntityOptions \<Rightarrow> jvalue io" where
  "findEntity X dataAccessor options =
     bnd (findEntities X dataAccessor options) (\<lambda>entities. ret (firstOf entities))"

definition findById :: "externals \<Rightarrow> string \<times> model \<Rightarrow> jvalue \<Rightarrow> bool \<Rightarrow> jvalue io" where
  "findById X dataAccessor i keepNonProperty =
     findEntity X dataAccessor
       (noOptions\<lparr>filters := Some [Leaf (Some ''id'') Eq i],
                  keepNonPropertyFields := Some keepNonProperty\<rparr>)"

section \<open>Cascading create\<close>

text \<open>
  \<^verbatim>\<open>createEntity\<close> calls itself on embedded related entities. The recursion is
  bounded by a counter: a computation that exhausts it has no result (\<open>None\<close>).
\<close>

type_synonym 'a pio = "world \<Rightarrow> ((error + 'a) \<times> world) option"

definition run :: "'a io \<Rightarrow> 'a pio" where
  "run m s = Some (m s)"

definition pbnd :: "'a pio \<Rightarrow> ('a \<Rightarrow> 'b pio) \<Rightarrow> 'b pio" where
  "pbnd m f s =
     (case m s of
        None \<Rightarrow> None
      | Some (Inl e, s') \<Rightarrow> Some (Inl e, s')
      | Some (Inr x, s') \<Rightarrow> f x s')"

fun forEachP :: "('a \<Rightarrow> 'b \<Rightarrow> 'b pio) \<Rightarrow> 'a list \<Rightarrow> 'b \<Rightarrow> 'b pio" where
  \<comment> \<open>a loop that threads what its body updates and stops at the first exception\<close>
  "forEachP f [] acc = run (ret acc)"
| "forEachP f (x # xs) acc = pbnd (f x acc) (forEachP f xs)"

definition readProp :: "jvalue \<Rightarrow> string \<Rightarrow> jvalue io" where
  \<comment> \<open>\<^verbatim>\<open>v[k]\<close> where \<open>v\<close> may be null or undefined\<close>
  "readProp v k = (if isNullOrUndefined v then throw TypeError else ret (getProp v k))"

definition push :: "jvalue \<Rightarrow> string \<Rightarrow> jvalue \<Rightarrow> jvalue io" where
  \<comment> \<open>\<^verbatim>\<open>o[k].push(x)\<close>, returning the updated \<open>o\<close>\<close>
  "push v k x =
     (case getProp v k of
        JArr xs ps \<Rightarrow> assign v k (JArr (xs @ [x]) ps)
      | _ \<Rightarrow> throw TypeError)"

definition oneRelationProperties :: "externals \<Rightarrow> model \<Rightarrow> jvalue \<Rightarrow> property list" where
  \<comment> \<open>lines 430-446 and 574-590: the relation properties among the keys that are not
     \<^verbatim>\<open>many\<close>, in key order\<close>
  "oneRelationProperties X m entity =
     List.map_filter
       (\<lambda>propertyCode.
          case List.find (\<lambda>e. code e = propertyCode) (properties m) of
            None \<Rightarrow> None
          | Some p \<Rightarrow> if isRelationProperty X p \<and> relation p \<noteq> Some Many then Some p else None)
       (keysOf entity)"

definition manyRelationProperties :: "externals \<Rightarrow> model \<Rightarrow> jvalue \<Rightarrow> property list" where
  "manyRelationProperties X m entity =
     List.map_filter
       (\<lambda>propertyCode.
          case List.find (\<lambda>e. code e = propertyCode) (properties m) of
            None \<Rightarrow> None
          | Some p \<Rightarrow> if isRelationProperty X p \<and> relation p = Some Many then Some p else None)
       (keysOf entity)"

definition insertLink :: "externals \<Rightarrow> property \<Rightarrow> jvalue \<Rightarrow> jvalue \<Rightarrow> jvalue list io" where
  \<comment> \<open>the \<^verbatim>\<open>INSERT ... ON CONFLICT DO NOTHING\<close> of lines 503, 517, 535, 639, 653, 671\<close>
  "insertLink X p selfId targetId =
     queryDatabaseObject X
       (InsertOnConflictDoNothing (linkSchema p) (keyOf (linkTableName p))
          (selfIdColumnName p) (targetIdColumnName p))
       [selfId, targetId]"

definition saveOneRelation ::
  "(string \<times> model \<Rightarrow> jvalue \<Rightarrow> jvalue pio) \<Rightarrow> jvalue \<Rightarrow> property \<Rightarrow> jvalue \<Rightarrow> jvalue pio" where
  \<comment> \<open>lines 451-470: the body of the loop over \<open>oneRelationPropertiesToCreate\<close>;
     \<open>create\<close> is the recursive call and the result is the updated \<open>row\<close>\<close>
  "saveOneRelation create entity p row =
     (let fieldValue = getProp entity (code p) in
      if isObject fieldValue then
        if \<not> truthy (getProp fieldValue ''id'') then
          pbnd (run (getDataAccessor (targetSingularCode p))) (\<lambda>targetDataAccessor.
          pbnd (create targetDataAccessor fieldValue) (\<lambda>newTargetEntity.
          pbnd (run (readProp newTargetEntity ''id'')) (\<lambda>newId.
          run (assign row (keyOf (targetIdColumnName p)) newId))))
        else run (assign row (keyOf (targetIdColumnName p)) (getProp fieldValue ''id''))
      else run (assign row (keyOf (targetIdColumnName p)) fieldValue))"

definition createExistingRelated ::
  "externals \<Rightarrow> string \<times> model \<Rightarrow> property \<Rightarrow> jvalue \<Rightarrow> jvalue \<Rightarrow> jvalue io" where
  \<comment> \<open>lines 510-524 and 528-543: an element that names an existing entity; the result is
     the updated \<open>newEntity\<close>\<close>
  "createExistingRelated X targetDataAccessor p relatedEntityId newEntity =
     bnd (accessorFindById (fst targetDataAccessor) relatedEntityId) (\<lambda>targetEntity.
     if \<not> truthy targetEntity then throw (RelatedEntityNotExists relatedEntityId (code p))
     else if present (linkTableName p) then
       bnd (insertLink X p (getProp newEntity ''id'') relatedEntityId) (\<lambda>_.
       push newEntity (code p) targetEntity)
     else
       bnd (accessorUpdateById (fst targetDataAccessor) (getProp targetEntity ''id'')
              (JObj [(keyOf (selfIdColumnName p), getProp newEntity ''id'')])) (\<lambda>_.
       bnd (assign targetEntity (keyOf (selfIdColumnName p)) (getProp newEntity ''id'')) (\<lambda>targetEntity'.
       push newEntity (code p) targetEntity')))"

definition createRelatedEntity ::
  "(string \<times> model \<Rightarrow> jvalue \<Rightarrow> jvalue pio) \<Rightarrow> externals \<Rightarrow> string \<times> model \<Rightarrow> property \<Rightarrow>
   jvalue \<Rightarrow> jvalue \<Rightarrow> jvalue pio" where
  \<comment> \<open>lines 488-545: the body of the loop over \<open>relatedEntitiesToBeSaved\<close>; the result
     is the updated \<open>newEntity\<close>\<close>
  "createRelatedEntity create X targetDataAccessor p relatedEntityToBeSaved newEntity =
     (if isObject relatedEntityToBeSaved then
        if \<not> truthy (getProp relatedEntityToBeSaved ''id'') then
          pbnd (run (if \<not> present (linkTableName p)
                     then assign relatedEntityToBeSaved (keyOf (selfIdColumnName p)) (getProp newEntity ''id'')
                     else ret relatedEntityToBeSaved)) (\<lambda>targetEntity.
          pbnd (create targetDataAccessor targetEntity) (\<lambda>newTargetEntity.
          pbnd (run (if present (linkTableName p)
                     then bnd (readProp newTargetEntity ''id'') (\<lambda>newTargetId.
                          insertLink X p (getProp newEntity ''id'') newTargetId)
                     else ret [])) (\<lambda>_.
          run (push newEntity (code p) newTargetEntity))))
        else run (createExistingRelated X targetDataAccessor p
                    (getProp relatedEntityToBeSaved ''id'') newEntity)
      else run (createExistingRelated X targetDataAccessor p relatedEntityToBeSaved newEntity))"

definition saveManyRelation ::
  "(string \<times> model \<Rightarrow> jvalue \<Rightarrow> jvalue pio) \<Rightarrow> externals \<Rightarrow> jvalue \<Rightarrow> property \<Rightarrow> jvalue \<Rightarrow> jvalue pio" where
  \<comment> \<open>lines 476-546: the body of the loop over \<open>manyRelationPropertiesToCreate\<close>\<close>
  "saveManyRelation create X entity p newEntity =
     pbnd (run (assign newEntity (code p) (JArr [] []))) (\<lambda>newEntity1.
     pbnd (run (getDataAccessor (targetSingularCode p))) (\<lambda>targetDataAccessor.
     case getProp entity (code p) of
       JArr relatedEntitiesToBeSaved ps \<Rightarrow>
         forEachP (createRelatedEntity create X targetDataAccessor p) relatedEntitiesToBeSaved newEntity1
     | _ \<Rightarrow> run (throw (FieldShouldBeArray (code p)))))"

definition createEntityBody ::
  "(string \<times> model \<Rightarrow> jvalue \<Rightarrow> jvalue pio) \<Rightarrow> externals \<Rightarrow> string \<times> model \<Rightarrow> jvalue \<Rightarrow> jvalue pio" where
  \<comment> \<open>lines 422-550, with the recursive call as \<open>create\<close>\<close>
  "createEntityBody create X dataAccessor entity =
     (let m = snd dataAccessor in
      pbnd (forEachP (saveOneRelation create entity) (oneRelationProperties X m entity)
              (mapEntityToDbRow X m entity)) (\<lambda>row.
      pbnd (run (accessorCreate (fst dataAccessor) row)) (\<lambda>newRow.
      forEachP (saveManyRelation create X entity) (manyRelationProperties X m entity)
        (mapDbRowToEntity X (Some m) newRow (Some False)))))"

primrec createEntity :: "nat \<Rightarrow> externals \<Rightarrow> string \<times> model \<Rightarrow> jvalue \<Rightarrow> jvalue pio" where
  "createEntity 0 X = (\<lambda>dataAccessor entity s. None)"
| "createEntity (Suc n) X = createEntityBody (createEntity n X) X"

section \<open>Cascading update by id\<close>

definition updateOneRelation :: "jvalue \<Rightarrow> property \<Rightarrow> jvalue \<Rightarrow> jvalue io" where
  \<comment> \<open>lines 593-600: the body of \<^verbatim>\<open>oneRelationPropertiesToUpdate.forEach\<close>; the
     result is the updated \<open>row\<close>\<close>
  "updateOneRelation changes p row =
     (let fieldValue = getProp changes (code p) in
      if isObject fieldValue
      then assign row (keyOf (targetIdColumnName p)) (getProp fieldValue ''id'')
      else assign row (keyOf (targetIdColumnName p)) fieldValue)"

definition updateExistingRelated ::
  "externals \<Rightarrow> string \<times> model \<Rightarrow> property \<Rightarrow> jvalue \<Rightarrow> jvalue \<Rightarrow> jvalue list \<Rightarrow> jvalue list io" where
  \<comment> \<open>lines 646-660 and 664-679: an element that names an existing entity; the result is
     the updated \<open>relatedEntities\<close>\<close>
  "updateExistingRelated X targetDataAccessor p i relatedEntityId relatedEntities =
     bnd (accessorFindById (fst targetDataAccessor) relatedEntityId) (\<lambda>targetEntity.
     if \<not> truthy targetEntity then throw (RelatedEntityNotExists relatedEntityId (code p))
     else if present (linkTableName p) then
       bnd (insertLink X p i relatedEntityId) (\<lambda>_.
       ret (relatedEntities @ [targetEntity]))
     else
       bnd (accessorUpdateById (fst targetDataAccessor) (getProp targetEntity ''id'')
              (JObj [(keyOf (selfIdColumnName p), i)])) (\<lambda>_.
       bnd (assign targetEntity (keyOf (selfIdColumnName p)) i) (\<lambda>targetEntity'.
       ret (relatedEntities @ [targetEntity']))))"

definition updateRelatedEntity ::
  "(string \<times> model \<Rightarrow> jvalue \<Rightarrow> jvalue pio) \<Rightarrow> externals \<Rightarrow> string \<times> model \<Rightarrow> property \<Rightarrow>
   jvalue \<Rightarrow> jvalue \<Rightarrow> jvalue list \<Rightarrow> jvalue list pio" where
  \<comment> \<open>lines 624-681: the body of the loop over \<open>relatedEntitiesToBeSaved\<close>; the result
     is the updated \<open>relatedEntities\<close>\<close>
  "updateRelatedEntity create X targetDataAccessor p i relatedEntityToBeSaved relatedEntities =
     (if isObject relatedEntityToBeSaved then
        if \<not> truthy (getProp relatedEntityToBeSaved ''id'') then
          pbnd (run (if \<not> present (linkTableName p)
                     then assign relatedEntityToBeSaved (keyOf (selfIdColumnName p)) i
                     else ret relatedEntityToBeSaved)) (\<lambda>targetEntity.
          pbnd (create targetDataAccessor targetEntity) (\<lambda>newTargetEntity.
          pbnd (run (if present (linkTableName p)
                     then bnd (readProp newTargetEntity ''id'') (\<lambda>newTargetId.
                          insertLink X p i newTargetId)
                     else ret [])) (\<lambda>_.
          run (ret (relatedEntities @ [newTargetEntity])))))
        else run (updateExistingRelated X targetDataAccessor p i
                    (getProp relatedEntityToBeSaved ''id'') relatedEntities)
      else run (updateExistingRelated X targetDataAccessor p i relatedEntityToBeSaved relatedEntities))"

definition deleteLinksOf :: "externals \<Rightarrow> property \<Rightarrow> jvalue \<Rightarrow> jvalue list io" where
  \<comment> \<open>line 621: \<^verbatim>\<open>DELETE FROM link WHERE self = $1\<close>\<close>
  "deleteLinksOf X p i =
     queryDatabaseObject X
       (DeleteWhere (linkSchema p) (keyOf (linkTableName p)) (selfIdColumnName p)) [i]"

definition updateManyRelation ::
  "(string \<times> model \<Rightarrow> jvalue \<Rightarrow> jvalue pio) \<Rightarrow> externals \<Rightarrow> jvalue \<Rightarrow> jvalue \<Rightarrow> property \<Rightarrow>
   jvalue \<Rightarrow> jvalue pio" where
  \<comment> \<open>lines 608-683: the body of the loop over \<open>manyRelationPropertiesToUpdate\<close>; the
     result is the updated \<open>updatedEntity\<close>\<close>
  "updateManyRelation create X i changes p updatedEntity =
     pbnd (run (getDataAccessor (targetSingularCode p))) (\<lambda>targetDataAccessor.
     case getProp changes (code p) of
       JArr relatedEntitiesToBeSaved ps \<Rightarrow>
         pbnd (run (if present (linkTableName p) then deleteLinksOf X p i else ret [])) (\<lambda>_.
         pbnd (forEachP (updateRelatedEntity create X targetDataAccessor p i)
                 relatedEntitiesToBeSaved []) (\<lambda>relatedEntities.
         run (assign updatedEntity (code p) (JArr relatedEntities []))))
     | _ \<Rightarrow> run (throw (FieldShouldBeArray (code p))))"

definition objectAssign :: "jvalue \<Rightarrow> jvalue \<Rightarrow> jvalue" where
  \<comment> \<open>\<^verbatim>\<open>Object.assign({}, a, b)\<close>\<close>
  "objectAssign a b =
     JObj (fold (\<lambda>k. AList.update k (getProp b k)) (keysOf b)
             (fold (\<lambda>k. AList.update k (getProp a k)) (keysOf a) []))"

definition objectKeys :: "jvalue \<Rightarrow> string list io" where
  \<comment> \<open>\<^verbatim>\<open>Object.keys(v)\<close>\<close>
  "objectKeys v = (if isNullOrUndefined v then throw TypeError else ret (keysOf v))"

fun forEachIOAcc :: "('a \<Rightarrow> 'b \<Rightarrow> 'b io) \<Rightarrow> 'a list \<Rightarrow> 'b \<Rightarrow> 'b io" where
  "forEachIOAcc f [] acc = ret acc"
| "forEachIOAcc f (x # xs) acc = bnd (f x acc) (forEachIOAcc f xs)"

text \<open>
  \<^verbatim>\<open>updateEntityById\<close> (lines 552-698). The source adds the owner id to the embedded
  elements of \<^verbatim>\<open>changes\<close> in place before it creates them; the \<^verbatim>\<open>changes\<close> of the
  emitted event are the computed change set here, without those additions.
\<close>

definition updateEntityById ::
  "nat \<Rightarrow> externals \<Rightarrow> string \<times> model \<Rightarrow> jvalue \<Rightarrow> jvalue \<Rightarrow> plugin option \<Rightarrow> jvalue pio" where
  "updateEntityById n X dataAccessor i entityToSave pl =
     (let m = snd dataAccessor in
      if \<not> truthy i then run (throw IdRequired)
      else
        pbnd (run (findById X dataAccessor i False)) (\<lambda>entity.
        if \<not> truthy entity then run (throw (EntityNotFound (namespace m) (singularCode m) i))
        else
          let changes = getEntityPartChanges X entity entityToSave in
          if \<not> truthy changes then run (ret entity)
          else
            pbnd (run (forEachIOAcc (updateOneRelation changes) (oneRelationProperties X m changes)
                         (mapEntityToDbRow X m changes))) (\<lambda>row.
            pbnd (run (objectKeys row)) (\<lambda>ks.
            pbnd (run (if ks \<noteq> [] then accessorUpdateById (fst dataAccessor) i row else ret row)) (\<lambda>updatedRow.
            pbnd (forEachP (updateManyRelation (createEntity n X) X i changes)
                    (manyRelationProperties X m changes) (objectAssign entity updatedRow)) (\<lambda>updatedEntity.
            pbnd (run (emitEvent (EntityUpdate (namespace m) (singularCode m) entity updatedEntity changes) pl)) (\<lambda>_.
            run (ret updatedEntity))))))))"

section \<open>The entity manager\<close>

text \<open>
  The methods of \<^verbatim>\<open>class EntityManager\<close>; its \<^verbatim>\<open>#dataAccessor\<close> is the
  \<open>dataAccessor\<close> argument.
\<close>

definition EntityManager_createEntity ::
  "nat \<Rightarrow> externals \<Rightarrow> string \<times> model \<Rightarrow> jvalue \<Rightarrow> plugin option \<Rightarrow> jvalue pio" where
  \<comment> \<open>lines 725-740\<close>
  "EntityManager_createEntity n X dataAccessor entity pl =
     (let m = snd dataAccessor in
      pbnd (createEntity n X dataAccessor entity) (\<lambda>newEntity.
      pbnd (run (emitEvent (EntityCreate (namespace m) (singularCode m) newEntity) pl)) (\<lambda>_.
      run (ret newEntity))))"

definition EntityManager_updateEntityById ::
  "nat \<Rightarrow> externals \<Rightarrow> string \<times> model \<Rightarrow> jvalue \<Rightarrow> jvalue \<Rightarrow> plugin option \<Rightarrow> jvalue pio" where
  "EntityManager_updateEntityById n X dataAccessor i entityToSave pl =
     updateEntityById n X dataAccessor i entityToSave pl"

definition deleteById :: "externals \<Rightarrow> string \<times> model \<Rightarrow> jvalue \<Rightarrow> plugin option \<Rightarrow> unit io" where
  \<comment> \<open>lines 750-767\<close>
  "deleteById X dataAccessor i pl =
     (let m = snd dataAccessor in
      bnd (findById X dataAccessor i True) (\<lambda>entity.
      if \<not> truthy entity then ret ()
      else
        bnd (accessorDeleteById (fst dataAccessor) i) (\<lambda>_.
        emitEvent (EntityDelete (namespace m) (singularCode m) entity) pl)))"




section \<open>Finding an entity by id, in closed form\<close>

text \<open>
  The options that \<^verbatim>\<open>findById\<close> hands to its accessor and the entity it returns,
  as functions of the rows of the collection.
\<close>


definition byIdOptions :: "jvalue \<Rightarrow> findEntityOptions" where
  "byIdOptions i = \<lparr>filters = Some [Leaf (Some ''id'') Eq i], orderBy = None, pagination = JUndefined,
      selectProperties = Some [], keepNonPropertyFields = None\<rparr>"

definition foundById :: "externals \<Rightarrow> string \<times> model \<Rightarrow> jvalue \<Rightarrow> bool \<Rightarrow> jvalue list \<Rightarrow> jvalue" where
  "foundById X dataAccessor i keep rows =
     (case List.find (\<lambda>row. getProp row ''id'' = i) rows of
        None \<Rightarrow> JUndefined
      | Some row \<Rightarrow> mapDbRowToEntity X (Some (snd dataAccessor)) row (Some keep))"


section \<open>Relations between the states before and after a computation\<close>

text \<open>
  A computation steps within a relation \<open>R\<close> on server states when every run of it
  takes a state to one that \<open>R\<close> relates to it, whether it returns or throws.
\<close>


definition ioSteps :: "(world \<Rightarrow> world \<Rightarrow> bool) \<Rightarrow> 'a io \<Rightarrow> bool" where
  "ioSteps R m = (\<forall>s. R s (snd (m s)))"

definition pioSteps :: "(world \<Rightarrow> world \<Rightarrow> bool) \<Rightarrow> 'a pio \<Rightarrow> bool" where
  "pioSteps R m = (\<forall>s r s'. m s = Some (r, s') \<longrightarrow> R s s')"

definition sameEvents :: "world \<Rightarrow> world \<Rightarrow> bool" where
  "sameEvents s s' = (events s' = events s)"


text \<open>
  The options of the find that the relation expander makes for a relation over a foreign
  key (lines 115-137, 384-392 and 406-414).
\<close>


definition relatedEntitiesOptions :: "property \<Rightarrow> jvalue list \<Rightarrow> jvalue list \<Rightarrow> findEntityOptions" where
  "relatedEntitiesOptions relationProperty entityIds entities =
     (if relation relationProperty = Some Many
      then noOptions\<lparr>filters := Some [Leaf (selfIdColumnName relationProperty) In (JArr entityIds [])]\<rparr>
      else noOptions\<lparr>filters := Some [Leaf (Some ''id'') In
             (JArr (uniq (filter (\<lambda>v. \<not> isNullOrUndefined v)
                            (map (\<lambda>entity. getProp entity (keyOf (targetIdColumnName relationProperty)))
                               entities))) [])]\<rparr>)"


section \<open>Link rows of an owner and a related entity\<close>






section \<open>Saving one element of a many relation\<close>











section \<open>Entities on which the cascading create returns\<close>

text \<open>
  The recursion of \<^verbatim>\<open>createEntity\<close> descends into the embedded objects of the entity
  it is given. \<open>objCount\<close> counts the objects and arrays of a value; it bounds the depth of
  the recursion as long as the ids that the cascade copies into embedded entities are not
  objects themselves (\<open>plainId\<close>), which the mappers between entities and rows have to
  preserve (\<open>plainMapping\<close>) and which holds when no relation property of a registered
  model is called \<^verbatim>\<open>id\<close> or keeps its target id in a column \<^verbatim>\<open>id\<close>
  (\<open>goodProperties\<close>, \<open>goodAccessors\<close>).
\<close>

fun objCount :: "jvalue \<Rightarrow> nat" where
  "objCount (JArr xs ps) = Suc (sum_list (map objCount xs) + sum_list (map (\<lambda>kv. objCount (snd kv)) ps))"
| "objCount (JObj kvs) = Suc (sum_list (map (\<lambda>kv. objCount (snd kv)) kvs))"
| "objCount v = 0"

definition plainId :: "jvalue \<Rightarrow> bool" where
  "plainId v = (\<not> isObject (getProp v ''id''))"

definition plainMapping :: "externals \<Rightarrow> bool" where
  "plainMapping X =
     ((\<forall>m row k. plainId row \<longrightarrow> plainId (mapDbRowToEntity X m row k))
      \<and> (\<forall>m e. plainId e \<longrightarrow> plainId (mapEntityToDbRow X m e)))"

definition goodProperties :: "externals \<Rightarrow> model \<Rightarrow> bool" where
  "goodProperties X m =
     list_all (\<lambda>p. isRelationProperty X p \<longrightarrow> code p \<noteq> ''id'' \<and> keyOf (targetIdColumnName p) \<noteq> ''id'')
       (properties m)"

definition goodAccessors :: "externals \<Rightarrow> world \<Rightarrow> bool" where
  "goodAccessors X s = list_all (\<lambda>km. goodProperties X (snd km)) (accessors s)"

definition sameAccessors :: "world \<Rightarrow> world \<Rightarrow> bool" where
  "sameAccessors s s' = (accessors s' = accessors s)"

definition pioReturns :: "externals \<Rightarrow> ('a \<Rightarrow> bool) \<Rightarrow> 'a pio \<Rightarrow> bool" where
  \<comment> \<open>from a state whose registered models are good the computation has a result, in such
     a state again, and a value it returns satisfies \<open>Q\<close>\<close>
  "pioReturns X Q m =
     (\<forall>s. goodAccessors X s \<longrightarrow>
          (\<exists>r s'. m s = Some (r, s') \<and> goodAccessors X s' \<and> (\<forall>x. r = Inr x \<longrightarrow> Q x)))"

definition ioPost :: "('a \<Rightarrow> bool) \<Rightarrow> 'a io \<Rightarrow> bool" where
  "ioPost Q m = (\<forall>s x s'. m s = (Inr x, s') \<longrightarrow> Q x)"

section \<open>A blog schema to run the definitions on\<close>

text \<open>
  One instance of the parameters and one server state, after the example of the
  specification: a post has an author (owning one relation), comments (many relation over
  the foreign key \<^verbatim>\<open>postId\<close> of the comments) and tags (many relation over the link
  table \<^verbatim>\<open>post_tags\<close>). The theorems below hold for every instance; this one evaluates
  them.
\<close>

definition blogExternals :: externals where
  "blogExternals =
     \<lparr>isRelationProperty = (\<lambda>p. relation p \<noteq> None),
      mapDbRowToEntity = (\<lambda>m row keep. row),
      mapEntityToDbRow = (\<lambda>m e. JObj (filter (\<lambda>kv. fst kv \<notin> {''author'', ''comments'', ''tags''}) (entries e))),
      mapPropertyNameToColumnName = (\<lambda>m c. c),
      getEntityPartChanges =
        (\<lambda>before after.
           case filter (\<lambda>kv. getProp before (fst kv) \<noteq> snd kv) (entries after) of
             [] \<Rightarrow> JNull
           | kvs \<Rightarrow> JObj kvs),
      looseEq = (\<lambda>a b. a = b),
      holdsOther = (\<lambda>row g. False),
      arrange = (\<lambda>ob pg rows. rows),
      conflicts = (\<lambda>t rows new. new \<in> set rows)\<rparr>"

definition scalarProperty :: "string \<Rightarrow> property" where
  "scalarProperty c =
     \<lparr>code = c, columnName = None, relation = None, targetSingularCode = None,
      targetIdColumnName = None, selfIdColumnName = None, linkTableName = None, linkSchema = None\<rparr>"

definition authorProperty :: property where
  "authorProperty = (scalarProperty ''author'')
     \<lparr>relation := Some One, targetSingularCode := Some ''user'', targetIdColumnName := Some ''author_id''\<rparr>"

definition commentsProperty :: property where
  "commentsProperty = (scalarProperty ''comments'')
     \<lparr>relation := Some Many, targetSingularCode := Some ''comment'', selfIdColumnName := Some ''postId''\<rparr>"

definition tagsProperty :: property where
  "tagsProperty = (scalarProperty ''tags'')
     \<lparr>relation := Some Many, targetSingularCode := Some ''tag'', selfIdColumnName := Some ''post_id'',
      targetIdColumnName := Some ''tag_id'', linkTableName := Some ''post_tags''\<rparr>"

definition postModel :: model where
  "postModel = \<lparr>namespace = ''blog'', singularCode = ''post'',
     properties = [scalarProperty ''id'', scalarProperty ''title'', authorProperty, commentsProperty,
                   tagsProperty]\<rparr>"

definition userModel :: model where
  "userModel = \<lparr>namespace = ''blog'', singularCode = ''user'', properties = [scalarProperty ''name'']\<rparr>"

definition commentModel :: model where
  "commentModel = \<lparr>namespace = ''blog'', singularCode = ''comment'', properties = [scalarProperty ''body'']\<rparr>"

definition tagModel :: model where
  "tagModel = \<lparr>namespace = ''blog'', singularCode = ''tag'', properties = [scalarProperty ''name'']\<rparr>"

definition blogWorld :: world where
  "blogWorld =
     \<lparr>models = [(''post'', postModel), (''user'', userModel), (''comment'', commentModel), (''tag'', tagModel)],
      accessors = [(''post'', postModel), (''user'', userModel), (''comment'', commentModel), (''tag'', tagModel)],
      tables =
        [(''post'', [JObj [(''id'', JNum 1), (''title'', JStr ''hello''), (''author_id'', JNum 2)]]),
         (''user'', [JObj [(''id'', JNum 2), (''name'', JStr ''ann'')]]),
         (''comment'', [JObj [(''id'', JNum 5), (''body'', JStr ''hi''), (''postId'', JNum 1)]]),
         (''tag'', [JObj [(''id'', JNum 3), (''name'', JStr ''news'')]])],
      linkTables = [((None, ''post_tags''), [JObj [(''post_id'', JNum 1), (''tag_id'', JNum 3)]])],
      nextId = 10,
      events = [],
      calls = []\<rparr>"

definition danglingWorld :: world where
  \<comment> \<open>a post whose \<^verbatim>\<open>author_id\<close> names a user that the user collection does not hold\<close>
  "danglingWorld = blogWorld
     \<lparr>tables := [(''post'', [JObj [(''id'', JNum 1), (''title'', JStr ''hello''), (''author_id'', JNum 7)]]),
                 (''user'', [JObj [(''id'', JNum 2), (''name'', JStr ''ann'')]])]\<rparr>"


section \<open>A self-referential schema\<close>






section \<open>Basic facts about computations\<close>

lemma bnd_Inr:
  "bnd m f s = (Inr y, s') \<Longrightarrow> \<exists>x s1. m s = (Inr x, s1) \<and> f x s1 = (Inr y, s')"
  by (auto simp: bnd_def split: prod.splits sum.splits)

lemma ret_Inr [simp]: "ret x s = (Inr y, s') \<longleftrightarrow> y = x \<and> s' = s"
  by (auto simp: ret_def)

lemma throw_Inr [simp]: "throw e s \<noteq> (Inr y, s')"
  by (simp add: throw_def)

section \<open>The filter rewriter\<close>

lemma relatedEntityIdFilter_leaf:
  "relatedEntityIdFilter opr p fs = Some g \<Longrightarrow> \<not> hasExistence g"
  by (auto simp: relatedEntityIdFilter_def split: option.splits list.splits entityFilter.splits if_splits)

lemma replaceExistence_leaf:
  "replaceExistence X m opr f fs s = (Inr g, s') \<Longrightarrow> \<not> hasExistence g"
  by (auto simp: replaceExistence_def oneRelationSubquery_def manyRelationSubquery_def
        linkTableSubquery_def
      dest!: bnd_Inr relatedEntityIdFilter_leaf split: option.splits if_splits)

lemma replace_noExistence:
  "replaceFiltersWithFiltersOperator X m fo s = (Inr fs', s') \<Longrightarrow> \<forall>g \<in> set fs'. \<not> hasExistence g"
  "replaceEach X m fs s = (Inr fs', s') \<Longrightarrow> \<forall>g \<in> set fs'. \<not> hasExistence g"
  "replaceFilter X m f s = (Inr g', s') \<Longrightarrow> \<not> hasExistence g'"
proof (induction X m fo and X m fs and X m f arbitrary: s fs' s' and s fs' s' and s g' s'
    rule: replaceFiltersWithFiltersOperator_replaceEach_replaceFilter.induct)
  case (1 X m)
  then show ?case by simp
next
  case (2 X m fs)
  then show ?case by simp
next
  case (3 X m)
  then show ?case by simp
next
  case (4 X m f fs)
  from "4.prems" obtain g s1 gs where
    a: "replaceFilter X m f s = (Inr g, s1)" and
    b: "replaceEach X m fs s1 = (Inr gs, s')" and c: "fs' = g # gs"
    by (auto dest!: bnd_Inr)
  from "4.IH"(1)[OF a] "4.IH"(2)[OF b] c show ?case by simp
next
  case (5 X m opr fs)
  from "5.prems" obtain gs s1 where
    a: "replaceFiltersWithFiltersOperator X m fs s = (Inr gs, s1)" and c: "g' = Logical opr (Some gs)"
    by (auto dest!: bnd_Inr)
  from "5.IH"[OF a] c show ?case by simp
next
  case (6 X m opr f fs)
  then show ?case by (auto dest: replaceExistence_leaf)
next
  case (7 X m f lop v)
  then show ?case by simp
qed

lemma relatedEntityIdFilter_shape:
  "relatedEntityIdFilter opr p fs = Some g \<Longrightarrow> rewrittenAs (Existence opr f fs) g"
  by (auto simp: relatedEntityIdFilter_def split: option.splits list.splits entityFilter.splits if_splits)

lemma replaceExistence_shape:
  "replaceExistence X m opr f fs s = (Inr g, s') \<Longrightarrow> rewrittenAs (Existence opr f fs) g"
  by (auto simp: replaceExistence_def oneRelationSubquery_def manyRelationSubquery_def
        linkTableSubquery_def containment_def
      dest!: bnd_Inr relatedEntityIdFilter_shape[where f=f] split: option.splits if_splits)

lemma replace_shape:
  "replaceFiltersWithFiltersOperator X m fo s = (Inr fs', s') \<Longrightarrow>
     list_all2 rewrittenAs (case fo of None \<Rightarrow> [] | Some l \<Rightarrow> l) fs'"
  "replaceEach X m fs s = (Inr fs', s') \<Longrightarrow> list_all2 rewrittenAs fs fs'"
  "replaceFilter X m f s = (Inr g', s') \<Longrightarrow> rewrittenAs f g'"
proof (induction X m fo and X m fs and X m f arbitrary: s fs' s' and s fs' s' and s g' s'
    rule: replaceFiltersWithFiltersOperator_replaceEach_replaceFilter.induct)
  case (1 X m)
  then show ?case by simp
next
  case (2 X m fs)
  then show ?case by simp
next
  case (3 X m)
  then show ?case by simp
next
  case (4 X m f fs)
  from "4.prems" obtain g s1 gs where
    a: "replaceFilter X m f s = (Inr g, s1)" and
    b: "replaceEach X m fs s1 = (Inr gs, s')" and c: "fs' = g # gs"
    by (auto dest!: bnd_Inr)
  from "4.IH"(1)[OF a] "4.IH"(2)[OF b] c show ?case by simp
next
  case (5 X m opr fs)
  from "5.prems" obtain gs s1 where
    a: "replaceFiltersWithFiltersOperator X m fs s = (Inr gs, s1)" and c: "g' = Logical opr (Some gs)"
    by (auto dest!: bnd_Inr)
  from "5.IH"[OF a] c show ?case by (cases fs) auto
next
  case (6 X m opr f fs)
  then show ?case by (auto dest: replaceExistence_shape)
next
  case (7 X m f lop v)
  then show ?case by simp
qed

lemmas blog_defs = blogExternals_def blogWorld_def postModel_def userModel_def commentModel_def
  tagModel_def scalarProperty_def authorProperty_def commentsProperty_def tagsProperty_def

lemmas io_defs = bnd_def ret_def throw_def lift_def logCall_def getModel_def getDataAccessor_def
  emitEvent_def accessorFind_def accessorFindById_def accessorCreate_def accessorUpdateById_def
  accessorDeleteById_def queryDatabaseObject_def rowsOf_def linkRowsOf_def selectRows_def
  projectRow_def assign_def readProp_def

lemmas js_defs = getProp_def entries_def keyOf_def present_def pluck_def

lemmas rewriter_defs = replaceExistence_def findProperty_def relatedEntityIdFilter_def
  oneRelationSubquery_def manyRelationSubquery_def linkTableSubquery_def subqueryOptions_def
  containment_def

text \<open>
  Claim C1. Whenever the rewriter returns, the filter list it returns holds no
  \<^verbatim>\<open>exists\<close> or \<^verbatim>\<open>notExists\<close> node at any depth, and it is the input list with
  every such node replaced by a leaf whose operator is a comparison or a containment.
\<close>

theorem rewriter_removes_existence_nodes:
  assumes "replaceFiltersWithFiltersOperator X m fs s = (Inr fs', s')"
  shows "(\<forall>g \<in> set fs'. \<not> hasExistence g)
       \<and> list_all2 rewrittenAs (case fs of None \<Rightarrow> [] | Some l \<Rightarrow> l) fs'"
  using replace_noExistence(1)[OF assms] replace_shape(1)[OF assms] by simp

theorem rewriter_removes_existence_nodes_witness:
  "fst (replaceFiltersWithFiltersOperator blogExternals postModel
          (Some [Logical And (Some [Existence Exists (Some ''author'')
                                      (Some [Leaf (Some ''name'') Eq (JStr ''ann'')])])])
          blogWorld)
     = Inr [Logical And (Some [Leaf (Some ''author_id'') In (JArr [JNum 2] [])])]
   \<and> \<not> hasExistence (Logical And (Some [Leaf (Some ''author_id'') In (JArr [JNum 2] [])]))
   \<and> list_all2 rewrittenAs
        [Logical And (Some [Existence Exists (Some ''author'')
                              (Some [Leaf (Some ''name'') Eq (JStr ''ann'')])])]
        [Logical And (Some [Leaf (Some ''author_id'') In (JArr [JNum 2] [])])]"
proof -
  let ?r = "replaceFiltersWithFiltersOperator blogExternals postModel
          (Some [Logical And (Some [Existence Exists (Some ''author'')
                                      (Some [Leaf (Some ''name'') Eq (JStr ''ann'')])])])
          blogWorld"
  have e: "fst ?r = Inr [Logical And (Some [Leaf (Some ''author_id'') In (JArr [JNum 2] [])])]"
    by (simp add: blog_defs io_defs js_defs rewriter_defs)
  have "?r = (Inr [Logical And (Some [Leaf (Some ''author_id'') In (JArr [JNum 2] [])])], snd ?r)"
    using e by (simp add: prod_eq_iff)
  from rewriter_removes_existence_nodes[OF this] e show ?thesis
    by simp
qed

text \<open>
  Claim C6. An \<^verbatim>\<open>exists\<close> or \<^verbatim>\<open>notExists\<close> filter on a one-relation property whose
  nested filters are the single leaf \<^verbatim>\<open>{field: "id", operator: eq|in, value: v}\<close> is
  rewritten to one leaf on the property's \<^verbatim>\<open>targetIdColumnName\<close> with the same value; the
  operator is kept for \<^verbatim>\<open>exists\<close> and becomes \<^verbatim>\<open>ne\<close> for \<^verbatim>\<open>eq\<close> and
  \<^verbatim>\<open>notIn\<close> for \<^verbatim>\<open>in\<close> under \<^verbatim>\<open>notExists\<close>. The server state, with its log of
  calls, is the one before: no accessor is fetched and no query is made.
\<close>

theorem id_filter_is_rewritten_without_query:
  assumes "findProperty m f = Some p"
    and "isRelationProperty X p"
    and "relation p = Some One"
    and "lop = Eq \<or> lop = In"
  shows "replaceFilter X m (Existence opr f (Some [Leaf (Some ''id'') lop v])) s =
           (Inr (Leaf (targetIdColumnName p)
                   (case opr of Exists \<Rightarrow> lop | NotExists \<Rightarrow> if lop = Eq then Ne else NotIn) v), s)
       \<and> replaceFiltersWithFiltersOperator X m (Some [Existence opr f (Some [Leaf (Some ''id'') lop v])]) s =
           (Inr [Leaf (targetIdColumnName p)
                   (case opr of Exists \<Rightarrow> lop | NotExists \<Rightarrow> if lop = Eq then Ne else NotIn) v], s)"
  using assms
  by (cases opr) (auto simp: replaceExistence_def relatedEntityIdFilter_def bnd_def ret_def)

theorem id_filter_is_rewritten_without_query_witness:
  "findProperty postModel (Some ''author'') = Some authorProperty
   \<and> isRelationProperty blogExternals authorProperty
   \<and> relation authorProperty = Some One
   \<and> replaceFiltersWithFiltersOperator blogExternals postModel
        (Some [Existence NotExists (Some ''author'') (Some [Leaf (Some ''id'') In (JArr [JNum 2, JNum 4] [])])])
        blogWorld =
       (Inr [Leaf (Some ''author_id'') NotIn (JArr [JNum 2, JNum 4] [])], blogWorld)"
proof -
  have a: "findProperty postModel (Some ''author'') = Some authorProperty"
    by (simp add: findProperty_def postModel_def authorProperty_def scalarProperty_def)
  have b: "isRelationProperty blogExternals authorProperty"
    by (simp add: blogExternals_def authorProperty_def)
  have c: "relation authorProperty = Some One"
    by (simp add: authorProperty_def)
  have d: "In = Eq \<or> In = In" by simp
  from id_filter_is_rewritten_without_query[OF a b c d, of NotExists "JArr [JNum 2, JNum 4] []" blogWorld]
  show ?thesis using a b c by (simp add: authorProperty_def)
qed

section \<open>The shortcut and the subquery\<close>


lemma map_of_filter_key:
  "map_of (filter (\<lambda>kv. fst kv \<in> A) kvs) k = (if k \<in> A then map_of kvs k else None)"
  by (induction kvs) auto

lemma filter_eq_iff_pred:
  "(filter P xs = filter Q xs) \<longleftrightarrow> (\<forall>x \<in> set xs. P x = Q x)"
proof (induction xs)
  case Nil
  then show ?case by simp
next
  case (Cons x xs)
  have a: "P x \<Longrightarrow> \<not> Q x \<Longrightarrow> x # filter P xs \<noteq> filter Q xs"
  proof
    assume "P x" "\<not> Q x" "x # filter P xs = filter Q xs"
    then have "x \<in> set (filter Q xs)" by (metis list.set_intros(1))
    with \<open>\<not> Q x\<close> show False by simp
  qed
  have b: "Q x \<Longrightarrow> \<not> P x \<Longrightarrow> filter P xs \<noteq> x # filter Q xs"
  proof
    assume "Q x" "\<not> P x" "filter P xs = x # filter Q xs"
    then have "x \<in> set (filter P xs)" by (metis list.set_intros(1))
    with \<open>\<not> P x\<close> show False by simp
  qed
  from Cons a b show ?case by auto
qed

lemma map_of_filter_key1:
  "map_of (filter (\<lambda>kv. fst kv = k') kvs) k = (if k = k' then map_of kvs k else None)"
  by (induction kvs) auto

lemma getProp_projectRow_id:
  "getProp (projectRow (Some [''id'']) row) ''id'' = getProp row ''id''"
  by (simp add: projectRow_def getProp_def entries_def map_of_filter_key1 split: jvalue.splits option.splits)

lemma subquery_ids:
  "set (map (\<lambda>r. getProp r ''id'')
          (selectRows X (subqueryOptions (Some [Leaf (Some ''id'') Eq v]) [''id'']) rowsT))
   = (if \<exists>t \<in> set rowsT. getProp t ''id'' = v then {v} else {})"
  by (auto simp: selectRows_def subqueryOptions_def getProp_projectRow_id keyOf_def)

lemma oneRelationSubquery_result:
  assumes "targetSingularCode p = Some T" and "map_of (accessors s) T = Some tm"
  shows "oneRelationSubquery X opr p fs s =
           (Inr (Leaf (targetIdColumnName p) (containment opr)
                   (pluck ''id'' (selectRows X (subqueryOptions fs [''id'']) (rowsOf s T)))),
            s\<lparr>calls := calls s @ [GetDataAccessor (Some T), Find T (subqueryOptions fs [''id''])]\<rparr>)"
  using assms
  by (simp add: oneRelationSubquery_def bnd_def getDataAccessor_def logCall_def accessorFind_def
      ret_def rowsOf_def)

lemma selectRows_single_cong:
  "filter (\<lambda>row. rowMatches X row f) rows = filter (\<lambda>row. rowMatches X row g) rows
   \<Longrightarrow> selectRows X (opts\<lparr>filters := Some [f]\<rparr>) rows = selectRows X (opts\<lparr>filters := Some [g]\<rparr>) rows"
  by (simp add: selectRows_def Let_def)

text \<open>
  Claim C2, as amended. For a one-relation property whose target collection has an accessor,
  the leaf that the shortcut writes for \<^verbatim>\<open>exists {field: "id", operator: "eq", value: v}\<close>
  and the leaf that the subquery path (lines 265-277) computes for the same filter match the
  same base rows exactly when the target collection holds a row with id \<open>v\<close> or no base
  row carries \<open>v\<close> in the target id column; in that case a find with either leaf returns
  the same rows.
\<close>

theorem id_shortcut_agrees_with_subquery_iff_target_exists:
  assumes "targetSingularCode p = Some T" and "map_of (accessors s) T = Some tm"
  shows "\<exists>general s'.
           oneRelationSubquery X Exists p (Some [Leaf (Some ''id'') Eq v]) s = (Inr general, s')
         \<and> relatedEntityIdFilter Exists p (Some [Leaf (Some ''id'') Eq v])
             = Some (Leaf (targetIdColumnName p) Eq v)
         \<and> ((filter (\<lambda>row. rowMatches X row (Leaf (targetIdColumnName p) Eq v)) rows
               = filter (\<lambda>row. rowMatches X row general) rows)
              \<longleftrightarrow> ((\<exists>t \<in> set (rowsOf s T). getProp t ''id'' = v)
                   \<or> (\<forall>r \<in> set rows. getProp r (keyOf (targetIdColumnName p)) \<noteq> v)))
         \<and> ((\<exists>t \<in> set (rowsOf s T). getProp t ''id'' = v)
                   \<or> (\<forall>r \<in> set rows. getProp r (keyOf (targetIdColumnName p)) \<noteq> v)
              \<longrightarrow> selectRows X (opts\<lparr>filters := Some [Leaf (targetIdColumnName p) Eq v]\<rparr>) rows
                  = selectRows X (opts\<lparr>filters := Some [general]\<rparr>) rows)"
proof -
  let ?ids = "map (\<lambda>r. getProp r ''id'')
          (selectRows X (subqueryOptions (Some [Leaf (Some ''id'') Eq v]) [''id'']) (rowsOf s T))"
  let ?g = "Leaf (targetIdColumnName p) In (JArr ?ids [])"
  let ?c = "keyOf (targetIdColumnName p)"
  have r: "oneRelationSubquery X Exists p (Some [Leaf (Some ''id'') Eq v]) s =
      (Inr ?g, s\<lparr>calls := calls s @ [GetDataAccessor (Some T),
           Find T (subqueryOptions (Some [Leaf (Some ''id'') Eq v]) [''id''])]\<rparr>)"
    using oneRelationSubquery_result[OF assms, of X Exists "Some [Leaf (Some ''id'') Eq v]"]
    by (simp add: containment_def pluck_def)
  have m: "\<And>row. rowMatches X row ?g \<longleftrightarrow>
      (getProp row ?c = v \<and> (\<exists>t \<in> set (rowsOf s T). getProp t ''id'' = v))"
    using subquery_ids[of X v "rowsOf s T"] by (auto split: if_splits)
  have iff: "(filter (\<lambda>row. rowMatches X row (Leaf (targetIdColumnName p) Eq v)) rows
               = filter (\<lambda>row. rowMatches X row ?g) rows)
              \<longleftrightarrow> ((\<exists>t \<in> set (rowsOf s T). getProp t ''id'' = v)
                   \<or> (\<forall>r \<in> set rows. getProp r ?c \<noteq> v))"
    unfolding filter_eq_iff_pred m by auto
  have sel: "(\<exists>t \<in> set (rowsOf s T). getProp t ''id'' = v)
                   \<or> (\<forall>r \<in> set rows. getProp r ?c \<noteq> v)
              \<Longrightarrow> selectRows X (opts\<lparr>filters := Some [Leaf (targetIdColumnName p) Eq v]\<rparr>) rows
                  = selectRows X (opts\<lparr>filters := Some [?g]\<rparr>) rows"
    using iff by (intro selectRows_single_cong) simp
  have opt: "relatedEntityIdFilter Exists p (Some [Leaf (Some ''id'') Eq v])
             = Some (Leaf (targetIdColumnName p) Eq v)"
    by (simp add: relatedEntityIdFilter_def)
  from r opt iff sel show ?thesis by blast
qed


theorem id_shortcut_agrees_with_subquery_iff_target_exists_witness:
  "targetSingularCode authorProperty = Some ''user''
   \<and> map_of (accessors blogWorld) ''user'' = Some userModel
   \<and> fst (oneRelationSubquery blogExternals Exists authorProperty (Some [Leaf (Some ''id'') Eq (JNum 2)]) blogWorld)
       = Inr (Leaf (Some ''author_id'') In (JArr [JNum 2] []))
   \<and> selectRows blogExternals (noOptions\<lparr>filters := Some [Leaf (Some ''author_id'') Eq (JNum 2)]\<rparr>)
         (rowsOf blogWorld ''post'')
       = selectRows blogExternals (noOptions\<lparr>filters := Some [Leaf (Some ''author_id'') In (JArr [JNum 2] [])]\<rparr>)
         (rowsOf blogWorld ''post'')
   \<and> selectRows blogExternals (noOptions\<lparr>filters := Some [Leaf (Some ''author_id'') Eq (JNum 2)]\<rparr>)
         (rowsOf blogWorld ''post'')
       = [JObj [(''id'', JNum 1), (''title'', JStr ''hello''), (''author_id'', JNum 2)]]"
proof -
  have a: "targetSingularCode authorProperty = Some ''user''"
    by (simp add: authorProperty_def)
  have b: "map_of (accessors blogWorld) ''user'' = Some userModel"
    by (simp add: blogWorld_def)
  have c: "fst (oneRelationSubquery blogExternals Exists authorProperty (Some [Leaf (Some ''id'') Eq (JNum 2)]) blogWorld)
       = Inr (Leaf (Some ''author_id'') In (JArr [JNum 2] []))"
    by (simp add: blog_defs io_defs js_defs rewriter_defs)
  have d: "\<exists>t \<in> set (rowsOf blogWorld ''user''). getProp t ''id'' = JNum 2"
    by (simp add: blogWorld_def rowsOf_def js_defs)
  have e: "targetIdColumnName authorProperty = Some ''author_id''"
    by (simp add: authorProperty_def)
  have f: "selectRows blogExternals (noOptions\<lparr>filters := Some [Leaf (Some ''author_id'') Eq (JNum 2)]\<rparr>)
         (rowsOf blogWorld ''post'')
       = [JObj [(''id'', JNum 1), (''title'', JStr ''hello''), (''author_id'', JNum 2)]]"
    by (simp add: blog_defs io_defs js_defs noOptions_def)
  from id_shortcut_agrees_with_subquery_iff_target_exists[OF a b,
      of blogExternals "JNum 2" "rowsOf blogWorld ''post''" noOptions]
  obtain general s' where
    g: "oneRelationSubquery blogExternals Exists authorProperty (Some [Leaf (Some ''id'') Eq (JNum 2)]) blogWorld
          = (Inr general, s')"
    and h: "(\<exists>t \<in> set (rowsOf blogWorld ''user''). getProp t ''id'' = JNum 2)
             \<or> (\<forall>r \<in> set (rowsOf blogWorld ''post'').
                   getProp r (keyOf (targetIdColumnName authorProperty)) \<noteq> JNum 2)
            \<longrightarrow> selectRows blogExternals
                  (noOptions\<lparr>filters := Some [Leaf (targetIdColumnName authorProperty) Eq (JNum 2)]\<rparr>)
                  (rowsOf blogWorld ''post'')
                = selectRows blogExternals (noOptions\<lparr>filters := Some [general]\<rparr>)
                    (rowsOf blogWorld ''post'')"
    by blast
  from g c have "general = Leaf (Some ''author_id'') In (JArr [JNum 2] [])"
    by simp
  with h d e a b c f show ?thesis
    by simp
qed

theorem id_shortcut_differs_from_subquery_on_dangling_id:
  "fst (replaceFilter blogExternals postModel
          (Existence Exists (Some ''author'') (Some [Leaf (Some ''id'') Eq (JNum 7)])) danglingWorld)
     = Inr (Leaf (Some ''author_id'') Eq (JNum 7))
   \<and> fst (oneRelationSubquery blogExternals Exists authorProperty
            (Some [Leaf (Some ''id'') Eq (JNum 7)]) danglingWorld)
     = Inr (Leaf (Some ''author_id'') In (JArr [] []))
   \<and> fst (accessorFind blogExternals ''post''
            (noOptions\<lparr>filters := Some [Leaf (Some ''author_id'') Eq (JNum 7)]\<rparr>) danglingWorld)
     = Inr [JObj [(''id'', JNum 1), (''title'', JStr ''hello''), (''author_id'', JNum 7)]]
   \<and> fst (accessorFind blogExternals ''post''
            (noOptions\<lparr>filters := Some [Leaf (Some ''author_id'') In (JArr [] [])]\<rparr>) danglingWorld)
     = Inr []"
  by (simp add: danglingWorld_def blog_defs io_defs js_defs rewriter_defs noOptions_def)

section \<open>Finding an entity by id\<close>

lemma firstOf_map_filter:
  "firstOf (map f (filter P xs)) = (case List.find P xs of None \<Rightarrow> JUndefined | Some x \<Rightarrow> f x)"
  by (induction xs) (auto simp: firstOf_def)

lemma projectRow_all [simp]: "projectRow (Some []) = (\<lambda>row. row)" "projectRow None = (\<lambda>row. row)"
  by (auto simp: projectRow_def)

lemma selectRows_byId:
  "selectRows X (byIdOptions i) rows = filter (\<lambda>row. getProp row ''id'' = i) rows"
  by (simp add: selectRows_def byIdOptions_def keyOf_def)

lemma findById_eq:
  "findById X dataAccessor i keep s =
     (Inr (foundById X dataAccessor i keep (rowsOf s (fst dataAccessor))),
      s\<lparr>calls := calls s @ [Find (fst dataAccessor) (byIdOptions i)]\<rparr>)"
proof -
  have "findEntities X dataAccessor
          (noOptions\<lparr>filters := Some [Leaf (Some ''id'') Eq i], keepNonPropertyFields := Some keep\<rparr>) s =
        (Inr (map (\<lambda>item. mapDbRowToEntity X (Some (snd dataAccessor)) item (Some keep))
                (selectRows X (byIdOptions i) (rowsOf s (fst dataAccessor)))),
         s\<lparr>calls := calls s @ [Find (fst dataAccessor) (byIdOptions i)]\<rparr>)"
    by (simp add: findEntities_def noOptions_def lift_def bnd_def ret_def accessorFind_def logCall_def
        convertToDataAccessOrderBy_def byIdOptions_def rowsOf_def Let_def)
  then show ?thesis
    by (simp add: findById_def findEntity_def bnd_def ret_def foundById_def selectRows_byId
        firstOf_map_filter)
qed


section \<open>Deleting and updating without effect\<close>


text \<open>
  Claim C8. When no row of the collection has the given id, \<^verbatim>\<open>deleteById\<close> returns
  without error and leaves the server as it was but for the logged find: no
  \<^verbatim>\<open>deleteById\<close> reaches the accessor and no event is emitted. When a row has the id
  (and the row mapper yields an entity for it), the rows with that id are deleted and one
  \<^verbatim>\<open>entity.delete\<close> event is emitted whose \<^verbatim>\<open>before\<close> is the entity found with
  \<^verbatim>\<open>keepNonPropertyFields = true\<close>.
\<close>

theorem deleteById_absent_is_silent_present_emits_before:
  "((\<forall>row \<in> set (rowsOf s c). getProp row ''id'' \<noteq> i) \<longrightarrow>
      deleteById X (c, m) i pl s = (Inr (), s\<lparr>calls := calls s @ [Find c (byIdOptions i)]\<rparr>))
   \<and> (List.find (\<lambda>row. getProp row ''id'' = i) (rowsOf s c) = Some row
        \<and> truthy (mapDbRowToEntity X (Some m) row (Some True)) \<longrightarrow>
      deleteById X (c, m) i pl s =
        (Inr (),
         s\<lparr>calls := calls s @ [Find c (byIdOptions i), DeleteById c i],
           tables := AList.update c (filter (\<lambda>row. getProp row ''id'' \<noteq> i) (rowsOf s c)) (tables s),
           events := events s @ [(EntityDelete (namespace m) (singularCode m)
                                    (mapDbRowToEntity X (Some m) row (Some True)), pl)]\<rparr>))"
proof (intro conjI impI)
  assume a: "\<forall>row \<in> set (rowsOf s c). getProp row ''id'' \<noteq> i"
  then have "List.find (\<lambda>row. getProp row ''id'' = i) (rowsOf s c) = None"
    by (simp add: find_None_iff)
  then show "deleteById X (c, m) i pl s = (Inr (), s\<lparr>calls := calls s @ [Find c (byIdOptions i)]\<rparr>)"
    by (simp add: deleteById_def findById_eq bnd_def foundById_def ret_def)
next
  assume "List.find (\<lambda>row. getProp row ''id'' = i) (rowsOf s c) = Some row
        \<and> truthy (mapDbRowToEntity X (Some m) row (Some True))"
  then show "deleteById X (c, m) i pl s =
        (Inr (),
         s\<lparr>calls := calls s @ [Find c (byIdOptions i), DeleteById c i],
           tables := AList.update c (filter (\<lambda>row. getProp row ''id'' \<noteq> i) (rowsOf s c)) (tables s),
           events := events s @ [(EntityDelete (namespace m) (singularCode m)
                                    (mapDbRowToEntity X (Some m) row (Some True)), pl)]\<rparr>)"
    by (simp add: deleteById_def findById_eq bnd_def foundById_def ret_def accessorDeleteById_def
        logCall_def emitEvent_def rowsOf_def)
qed


theorem deleteById_absent_is_silent_present_emits_before_witness:
  "deleteById blogExternals (''post'', postModel) (JNum 99) None blogWorld
     = (Inr (), blogWorld\<lparr>calls := [Find ''post'' (byIdOptions (JNum 99))]\<rparr>)
   \<and> fst (deleteById blogExternals (''post'', postModel) (JNum 1) None blogWorld) = Inr ()
   \<and> events (snd (deleteById blogExternals (''post'', postModel) (JNum 1) None blogWorld))
       = [(EntityDelete ''blog'' ''post''
             (JObj [(''id'', JNum 1), (''title'', JStr ''hello''), (''author_id'', JNum 2)]), None)]
   \<and> calls (snd (deleteById blogExternals (''post'', postModel) (JNum 1) None blogWorld))
       = [Find ''post'' (byIdOptions (JNum 1)), DeleteById ''post'' (JNum 1)]
   \<and> rowsOf (snd (deleteById blogExternals (''post'', postModel) (JNum 1) None blogWorld)) ''post'' = []"
proof -
  let ?row = "JObj [(''id'', JNum 1), (''title'', JStr ''hello''), (''author_id'', JNum 2)]"
  have a: "\<forall>row \<in> set (rowsOf blogWorld ''post''). getProp row ''id'' \<noteq> JNum 99"
    by (simp add: blogWorld_def rowsOf_def js_defs)
  have b: "List.find (\<lambda>row. getProp row ''id'' = JNum 1) (rowsOf blogWorld ''post'') = Some ?row
        \<and> truthy (mapDbRowToEntity blogExternals (Some postModel) ?row (Some True))"
    by (simp add: blogWorld_def rowsOf_def js_defs blogExternals_def)
  have c: "mapDbRowToEntity blogExternals (Some postModel) ?row (Some True) = ?row"
    by (simp add: blogExternals_def)
  have d: "namespace postModel = ''blog''" "singularCode postModel = ''post''"
    by (simp_all add: postModel_def)
  have e: "calls blogWorld = []" "events blogWorld = []"
    by (simp_all add: blogWorld_def)
  have f: "filter (\<lambda>row. getProp row ''id'' \<noteq> JNum 1) (rowsOf blogWorld ''post'') = []"
    by (simp add: blogWorld_def rowsOf_def js_defs)
  from deleteById_absent_is_silent_present_emits_before
         [of blogWorld "''post''" "JNum 99" blogExternals postModel None ?row] a
  have g: "deleteById blogExternals (''post'', postModel) (JNum 99) None blogWorld
     = (Inr (), blogWorld\<lparr>calls := [Find ''post'' (byIdOptions (JNum 99))]\<rparr>)"
    by (simp add: e)
  from deleteById_absent_is_silent_present_emits_before
         [of blogWorld "''post''" "JNum 1" blogExternals postModel None ?row] b
  have h: "deleteById blogExternals (''post'', postModel) (JNum 1) None blogWorld =
        (Inr (),
         blogWorld\<lparr>calls := [Find ''post'' (byIdOptions (JNum 1)), DeleteById ''post'' (JNum 1)],
           tables := AList.update ''post'' [] (tables blogWorld),
           events := [(EntityDelete ''blog'' ''post'' ?row, None)]\<rparr>)"
    by (simp add: c d e f)
  show ?thesis
    unfolding g h by (simp add: rowsOf_def update_conv')
qed

text \<open>
  Claim C7. When the loaded entity and the supplied partial entity give
  \<^verbatim>\<open>getEntityPartChanges\<close> nothing to report (it returns a falsy value),
  \<^verbatim>\<open>updateEntityById\<close> returns the loaded entity itself, and the server is as before but
  for the logged find of the entity: no \<^verbatim>\<open>updateById\<close>, no statement on a link table,
  no event, whatever the bound on the recursion.
\<close>

theorem update_without_changes_returns_loaded_entity:
  assumes "truthy i"
    and "truthy (foundById X dataAccessor i False (rowsOf s (fst dataAccessor)))"
    and "\<not> truthy (getEntityPartChanges X (foundById X dataAccessor i False (rowsOf s (fst dataAccessor))) entityToSave)"
  shows "updateEntityById n X dataAccessor i entityToSave pl s =
           Some (Inr (foundById X dataAccessor i False (rowsOf s (fst dataAccessor))),
                 s\<lparr>calls := calls s @ [Find (fst dataAccessor) (byIdOptions i)]\<rparr>)"
  using assms
  by (simp add: updateEntityById_def Let_def pbnd_def run_def findById_eq ret_def)


theorem update_without_changes_returns_loaded_entity_witness:
  "truthy (JNum 1)
   \<and> updateEntityById 0 blogExternals (''post'', postModel) (JNum 1) (JObj [(''title'', JStr ''hello'')]) None
        blogWorld
     = Some (Inr (JObj [(''id'', JNum 1), (''title'', JStr ''hello''), (''author_id'', JNum 2)]),
             blogWorld\<lparr>calls := [Find ''post'' (byIdOptions (JNum 1))]\<rparr>)"
proof -
  let ?row = "JObj [(''id'', JNum 1), (''title'', JStr ''hello''), (''author_id'', JNum 2)]"
  have f: "foundById blogExternals (''post'', postModel) (JNum 1) False (rowsOf blogWorld (fst (''post'', postModel)))
             = ?row"
    by (simp add: foundById_def blogWorld_def rowsOf_def js_defs blogExternals_def)
  have a: "truthy (JNum 1)" by simp
  have b: "truthy (foundById blogExternals (''post'', postModel) (JNum 1) False
                     (rowsOf blogWorld (fst (''post'', postModel))))"
    unfolding f by simp
  have c: "\<not> truthy (getEntityPartChanges blogExternals
                       (foundById blogExternals (''post'', postModel) (JNum 1) False
                          (rowsOf blogWorld (fst (''post'', postModel))))
                       (JObj [(''title'', JStr ''hello'')]))"
    unfolding f by (simp add: blogExternals_def js_defs)
  have e: "calls blogWorld = []"
    by (simp add: blogWorld_def)
  from update_without_changes_returns_loaded_entity[OF a b c, of 0 None] f e a
  show ?thesis by simp
qed

section \<open>Events are emitted by the entity manager only\<close>

lemma ioSteps_ret: "reflp R \<Longrightarrow> ioSteps R (ret x)"
  by (simp add: ioSteps_def ret_def reflp_def)

lemma ioSteps_throw: "reflp R \<Longrightarrow> ioSteps R (throw e)"
  by (simp add: ioSteps_def throw_def reflp_def)

lemma ioSteps_lift: "reflp R \<Longrightarrow> ioSteps R (lift r)"
  by (simp add: ioSteps_def lift_def reflp_def)

lemma ioSteps_bnd:
  assumes "transp R" and "ioSteps R m" and "\<And>x. ioSteps R (f x)"
  shows "ioSteps R (bnd m f)"
  unfolding ioSteps_def
proof
  fix s
  obtain r s1 where m: "m s = (r, s1)" by (cases "m s")
  from assms(2) m have a: "R s s1" by (auto simp: ioSteps_def dest: spec[where x=s])
  show "R s (snd (bnd m f s))"
  proof (cases r)
    case (Inl e)
    with m a show ?thesis by (simp add: bnd_def)
  next
    case (Inr x)
    from assms(3)[of x] have "R s1 (snd (f x s1))" by (simp add: ioSteps_def)
    with a assms(1) have "R s (snd (f x s1))" by (meson transpD)
    with m Inr show ?thesis by (simp add: bnd_def)
  qed
qed

lemma ioSteps_if:
  "ioSteps R a \<Longrightarrow> ioSteps R b \<Longrightarrow> ioSteps R (if c then a else b)"
  by simp

lemma ioSteps_forEachIO:
  assumes "reflp R" "transp R" and "\<And>x. ioSteps R (f x)"
  shows "ioSteps R (forEachIO f xs)"
  by (induction xs) (auto intro!: ioSteps_ret ioSteps_bnd assms)


lemma pioSteps_run: "ioSteps R m \<Longrightarrow> pioSteps R (run m)"
  unfolding ioSteps_def pioSteps_def run_def
  by (metis option.inject snd_conv)

lemma pioSteps_pbnd:
  assumes "transp R" and "pioSteps R m" and "\<And>x. pioSteps R (f x)"
  shows "pioSteps R (pbnd m f)"
  unfolding pioSteps_def
proof (intro allI impI)
  fix s r s'
  assume h: "pbnd m f s = Some (r, s')"
  then obtain r1 s1 where m: "m s = Some (r1, s1)"
    by (cases "m s") (auto simp: pbnd_def)
  from assms(2) m have a: "R s s1" by (auto simp: pioSteps_def)
  show "R s s'"
  proof (cases r1)
    case (Inl e)
    with m h a show ?thesis by (simp add: pbnd_def)
  next
    case (Inr x)
    with m h have "f x s1 = Some (r, s')" by (simp add: pbnd_def)
    with assms(3)[of x] have "R s1 s'" by (auto simp: pioSteps_def)
    with a assms(1) show ?thesis by (meson transpD)
  qed
qed

lemma pioSteps_forEachP:
  assumes "reflp R" "transp R" and "\<And>x acc. pioSteps R (f x acc)"
  shows "pioSteps R (forEachP f xs acc)"
  by (induction xs arbitrary: acc) (auto intro!: pioSteps_run ioSteps_ret pioSteps_pbnd assms)

lemma sameEvents_pre: "reflp sameEvents" "transp sameEvents"
  by (auto simp: sameEvents_def reflp_def transp_def)

lemma sameEvents_logCall: "ioSteps sameEvents (logCall c)"
  by (simp add: ioSteps_def sameEvents_def logCall_def)

lemma sameEvents_getDataAccessor: "ioSteps sameEvents (getDataAccessor c)"
  by (auto simp: ioSteps_def sameEvents_def getDataAccessor_def bnd_def logCall_def split: option.splits)

lemma sameEvents_accessorCreate: "ioSteps sameEvents (accessorCreate c row)"
  by (auto simp: ioSteps_def sameEvents_def accessorCreate_def bnd_def logCall_def split: sum.splits)

lemma sameEvents_accessorFindById: "ioSteps sameEvents (accessorFindById c i)"
  by (auto simp: ioSteps_def sameEvents_def accessorFindById_def bnd_def logCall_def)

lemma sameEvents_accessorUpdateById: "ioSteps sameEvents (accessorUpdateById c i partial)"
  by (auto simp: ioSteps_def sameEvents_def accessorUpdateById_def bnd_def logCall_def Let_def)

lemma sameEvents_runStatement: "events (snd (runStatement X stmt ps s)) = events s"
  by (cases stmt) (auto simp: setLinkRows_def Let_def)

lemma sameEvents_queryDatabaseObject: "ioSteps sameEvents (queryDatabaseObject X stmt ps)"
proof -
  have "\<And>s. events (snd (queryDatabaseObject X stmt ps s)) = events s"
  proof -
    fix s :: world
    let ?s1 = "s\<lparr>calls := calls s @ [QueryDatabaseObject stmt ps]\<rparr>"
    have "snd (queryDatabaseObject X stmt ps s) = snd (runStatement X stmt ps ?s1)"
      by (simp add: queryDatabaseObject_def bnd_def logCall_def split: prod.splits)
    then show "events (snd (queryDatabaseObject X stmt ps s)) = events s"
      using sameEvents_runStatement[of X stmt ps ?s1] by simp
  qed
  then show ?thesis by (simp add: ioSteps_def sameEvents_def)
qed

lemma sameEvents_assign: "ioSteps sameEvents (assign v k x)"
  by (simp add: assign_def ioSteps_lift sameEvents_pre)

lemma sameEvents_readProp: "ioSteps sameEvents (readProp v k)"
  by (simp add: readProp_def ioSteps_ret ioSteps_throw sameEvents_pre)

lemma sameEvents_push: "ioSteps sameEvents (push v k x)"
  by (auto simp: push_def sameEvents_assign ioSteps_throw sameEvents_pre split: jvalue.splits)

lemmas sameEvents_intros =
  ioSteps_ret[OF sameEvents_pre(1)] ioSteps_throw[OF sameEvents_pre(1)]
  ioSteps_bnd[OF sameEvents_pre(2)] pioSteps_pbnd[OF sameEvents_pre(2)] pioSteps_run
  pioSteps_forEachP[OF sameEvents_pre] ioSteps_forEachIO[OF sameEvents_pre]
  sameEvents_getDataAccessor sameEvents_accessorCreate sameEvents_accessorFindById
  sameEvents_accessorUpdateById sameEvents_queryDatabaseObject sameEvents_assign
  sameEvents_readProp sameEvents_push

lemma sameEvents_insertLink: "ioSteps sameEvents (insertLink X p a b)"
  by (simp add: insertLink_def sameEvents_queryDatabaseObject)

lemma sameEvents_createExistingRelated:
  "ioSteps sameEvents (createExistingRelated X tda p rid newEntity)"
  unfolding createExistingRelated_def
  by (intro sameEvents_intros sameEvents_insertLink ioSteps_if)

lemma sameEvents_saveOneRelation:
  assumes "\<And>acc e. pioSteps sameEvents (create acc e)"
  shows "pioSteps sameEvents (saveOneRelation create entity p row)"
  unfolding saveOneRelation_def Let_def
  by (auto intro!: sameEvents_intros assms)

lemma sameEvents_createRelatedEntity:
  assumes "\<And>acc e. pioSteps sameEvents (create acc e)"
  shows "pioSteps sameEvents (createRelatedEntity create X tda p r newEntity)"
  unfolding createRelatedEntity_def
  by (auto intro!: sameEvents_intros assms sameEvents_insertLink sameEvents_createExistingRelated)

lemma sameEvents_saveManyRelation:
  assumes "\<And>acc e. pioSteps sameEvents (create acc e)"
  shows "pioSteps sameEvents (saveManyRelation create X entity p newEntity)"
  unfolding saveManyRelation_def
  by (auto intro!: sameEvents_intros assms sameEvents_createRelatedEntity split: jvalue.splits)

lemma sameEvents_createEntityBody:
  assumes "\<And>acc e. pioSteps sameEvents (create acc e)"
  shows "pioSteps sameEvents (createEntityBody create X dataAccessor entity)"
  unfolding createEntityBody_def Let_def
  by (auto intro!: sameEvents_intros assms sameEvents_saveOneRelation sameEvents_saveManyRelation)

lemma sameEvents_createEntity: "pioSteps sameEvents (createEntity n X dataAccessor entity)"
proof (induction n arbitrary: dataAccessor entity)
  case 0
  then show ?case by (simp add: pioSteps_def)
next
  case (Suc n)
  then show ?case by (simp add: sameEvents_createEntityBody)
qed


section \<open>Evaluating the definitions on the blog schema\<close>


lemma blogExternals_simps:
  "isRelationProperty blogExternals p = (relation p \<noteq> None)"
  "mapDbRowToEntity blogExternals m row keep = row"
  "mapEntityToDbRow blogExternals md e = JObj (filter (\<lambda>kv. fst kv \<notin> {''author'', ''comments'', ''tags''}) (entries e))"
  "mapPropertyNameToColumnName blogExternals md c = c"
  "getEntityPartChanges blogExternals before after =
     (case filter (\<lambda>kv. getProp before (fst kv) \<noteq> snd kv) (entries after) of [] \<Rightarrow> JNull | kvs \<Rightarrow> JObj kvs)"
  "looseEq blogExternals a b = (a = b)"
  "holdsOther blogExternals row g = False"
  "arrange blogExternals ob pg rows = rows"
  "conflicts blogExternals t rows new = (new \<in> set rows)"
  by (simp_all add: blogExternals_def)

lemmas blog_simps = blogExternals_simps blogWorld_def postModel_def userModel_def commentModel_def
  tagModel_def scalarProperty_def authorProperty_def commentsProperty_def tagsProperty_def

lemmas run_simps =
  bnd_def ret_def throw_def lift_def logCall_def emitEvent_def pbnd_def run_def
  getModel_def[THEN fun_cong] getDataAccessor_def[THEN fun_cong]
  accessorFind_def[THEN fun_cong] accessorFindById_def[THEN fun_cong]
  accessorCreate_def[THEN fun_cong] accessorUpdateById_def[THEN fun_cong]
  accessorDeleteById_def[THEN fun_cong] queryDatabaseObject_def[THEN fun_cong]
  assign_def[THEN fun_cong] readProp_def[THEN fun_cong] push_def[THEN fun_cong]
  insertLink_def[THEN fun_cong] deleteLinksOf_def[THEN fun_cong] objectKeys_def[THEN fun_cong]
  createExistingRelated_def[THEN fun_cong] updateExistingRelated_def[THEN fun_cong]
  saveOneRelation_def[THEN fun_cong] createRelatedEntity_def[THEN fun_cong]
  saveManyRelation_def[THEN fun_cong] createEntityBody_def[THEN fun_cong]
  updateOneRelation_def[THEN fun_cong] updateRelatedEntity_def[THEN fun_cong]
  updateManyRelation_def[THEN fun_cong] updateEntityById_def[THEN fun_cong]
  EntityManager_createEntity_def[THEN fun_cong]
  rowsOf_def linkRowsOf_def selectRows_def projectRow_def
  oneRelationProperties_def manyRelationProperties_def keysOf_def arrayIndex_def digitOf_def
  List.map_filter_def setProp_def mergeRow_def linkRow_def setLinkRows_def param_def sqlEq_def
  anyOf_def objectAssign_def Let_def
  getProp_def entries_def keyOf_def present_def pluck_def


section \<open>The cascading create returns\<close>

subsection \<open>The number of objects in a value\<close>

lemma objCount_isObject: "objCount v = 0 \<longleftrightarrow> \<not> isObject v"
  by (cases v) simp_all

lemma objCount_member: "x \<in> set xs \<Longrightarrow> objCount x \<le> sum_list (map objCount xs)"
  by (induction xs) auto

lemma objCount_member_snd: "(k, x) \<in> set kvs \<Longrightarrow> objCount x \<le> sum_list (map (\<lambda>kv. objCount (snd kv)) kvs)"
  by (induction kvs) auto

lemma objCount_element: "x \<in> set xs \<Longrightarrow> objCount x < objCount (JArr xs ps)"
  using objCount_member[of x xs] by simp

lemma objCount_getProp:
  assumes "isObject (getProp v k)"
  shows "objCount (getProp v k) < objCount v"
proof (cases "map_of (entries v) k")
  case None
  with assms show ?thesis
    by (cases v) (auto simp: getProp_def split: if_splits)
next
  case (Some x)
  hence g: "getProp v k = x" by (simp add: getProp_def)
  from Some have m: "(k, x) \<in> set (entries v)" by (rule map_of_SomeD)
  show ?thesis
  proof (cases v)
    case (JObj kvs)
    with m have "(k, x) \<in> set kvs" by (simp add: entries_def)
    from objCount_member_snd[OF this] g JObj show ?thesis by simp
  next
    case (JArr xs ps)
    with m have "(k, x) \<in> set (zip (map showNat [0 ..< length xs]) xs) \<or> (k, x) \<in> set ps"
      by (simp add: entries_def)
    thus ?thesis
    proof
      assume "(k, x) \<in> set (zip (map showNat [0 ..< length xs]) xs)"
      hence "x \<in> set xs" by (rule set_zip_rightD)
      from objCount_member[OF this] g JArr show ?thesis by simp
    next
      assume "(k, x) \<in> set ps"
      from objCount_member_snd[OF this] g JArr show ?thesis by simp
    qed
  next
    case (JStr s)
    with m have "x \<in> set (map (\<lambda>c. JStr [c]) s)"
      by (auto simp: entries_def dest: set_zip_rightD)
    with assms g show ?thesis by auto
  qed (use m in \<open>simp_all add: entries_def\<close>)
qed

lemma objCount_update:
  "sum_list (map (\<lambda>kv. objCount (snd kv)) (AList.update k x kvs))
     \<le> sum_list (map (\<lambda>kv. objCount (snd kv)) kvs) + objCount x"
  by (induction kvs) auto

lemma objCount_list_update:
  "sum_list (map objCount (xs[i := x])) \<le> sum_list (map objCount xs) + objCount x"
proof (induction xs arbitrary: i)
  case Nil
  show ?case by simp
next
  case (Cons y ys)
  show ?case
  proof (cases i)
    case 0
    thus ?thesis by simp
  next
    case (Suc j)
    with Cons[of j] show ?thesis by simp
  qed
qed

lemma objCount_take: "sum_list (map objCount (take n xs)) \<le> sum_list (map objCount xs)"
proof (induction xs arbitrary: n)
  case Nil
  show ?case by simp
next
  case (Cons y ys)
  show ?case
  proof (cases n)
    case 0
    thus ?thesis by simp
  next
    case (Suc j)
    with Cons[of j] show ?thesis by simp
  qed
qed

lemma objCount_replicate: "sum_list (replicate n (0::nat)) = 0"
  by (induction n) auto

lemma objCount_setProp:
  assumes "setProp v k x = Inr v'"
  shows "objCount v' \<le> objCount v + objCount x"
proof (cases v)
  case (JObj kvs)
  with assms objCount_update[of k x kvs] show ?thesis
    by (auto simp: setProp_def)
next
  case (JArr xs ps)
  show ?thesis
  proof (cases "arrayIndex k")
    case (Some i)
    with assms JArr objCount_list_update[of xs i x] show ?thesis
      by (auto simp: setProp_def objCount_replicate split: if_splits)
  next
    case None
    show ?thesis
    proof (cases "k = ''length''")
      case False
      with assms JArr None objCount_update[of k x ps] show ?thesis
        by (auto simp: setProp_def)
    next
      case True
      with assms JArr None obtain n where "v' = JArr (take (nat n) xs @ replicate (nat n - length xs) JUndefined) ps"
        by (auto simp: setProp_def split: jvalue.splits if_splits)
      with JArr objCount_take[of "nat n" xs] show ?thesis
        by (simp add: objCount_replicate)
    qed
  qed
qed (use assms in \<open>simp_all add: setProp_def\<close>)

subsection \<open>Values whose id is not an object\<close>

lemma digitChar_digit: "digitChar d \<in> set ''0123456789''"
  using nth_mem[of "d mod 10" "''0123456789''"] by (simp add: digitChar_def)

lemma showNat_last: "showNat n \<noteq> [] \<and> last (showNat n) = digitChar (n mod 10)"
  by (subst (1 2) showNat.simps) (simp add: digitChar_def del: showNat.simps)

lemma showNat_not_id: "showNat i \<noteq> ''id''"
proof
  assume "showNat i = ''id''"
  with showNat_last[of i] have "digitChar (i mod 10) = CHR ''d''" by simp
  with digitChar_digit[of "i mod 10"] show False by simp
qed

lemma indices_not_id: "map_of (zip (map showNat [0 ..< length xs]) xs) ''id'' = None"
  by (subst map_of_zip_is_None) (auto simp: showNat_not_id[symmetric] simp del: showNat.simps)

lemma getProp_id_JObj:
  "getProp (JObj kvs) ''id'' = (case map_of kvs ''id'' of None \<Rightarrow> JUndefined | Some x \<Rightarrow> x)"
  by (simp add: getProp_def entries_def split: option.splits)

lemma getProp_id_JArr:
  "getProp (JArr xs ps) ''id'' = (case map_of ps ''id'' of None \<Rightarrow> JUndefined | Some x \<Rightarrow> x)"
  by (simp add: getProp_def entries_def map_add_def indices_not_id split: option.splits del: showNat.simps)

lemma plainId_scalar: "\<not> isObject v \<Longrightarrow> plainId v"
  using objCount_getProp[of v "''id''"] objCount_isObject[of v] by (auto simp: plainId_def)

lemma plainId_falsy: "\<not> truthy (getProp v ''id'') \<Longrightarrow> plainId v"
  unfolding plainId_def by (cases "getProp v ''id''") simp_all

lemma plainId_setProp:
  assumes "plainId v" and "k \<noteq> ''id'' \<or> \<not> isObject x" and "setProp v k x = Inr v'"
  shows "plainId v'"
proof (cases v)
  case (JObj kvs)
  with assms(3) have v': "v' = JObj (AList.update k x kvs)" by (simp add: setProp_def)
  from assms(1) JObj have "\<not> isObject (case map_of kvs ''id'' of None \<Rightarrow> JUndefined | Some x \<Rightarrow> x)"
    by (simp add: plainId_def getProp_id_JObj)
  with assms(2) show ?thesis
    unfolding plainId_def v' getProp_id_JObj by (auto simp: update_conv')
next
  case (JArr xs ps)
  from assms(1) JArr have i: "\<not> isObject (case map_of ps ''id'' of None \<Rightarrow> JUndefined | Some x \<Rightarrow> x)"
    by (simp add: plainId_def getProp_id_JArr)
  from assms(3) JArr obtain xs' where "v' = JArr xs' ps \<or> v' = JArr xs' (AList.update k x ps)"
    by (auto simp: setProp_def split: option.splits if_splits jvalue.splits)
  thus ?thesis
  proof
    assume "v' = JArr xs' ps"
    with i show ?thesis by (simp add: plainId_def getProp_id_JArr)
  next
    assume "v' = JArr xs' (AList.update k x ps)"
    with i assms(2) show ?thesis
      unfolding plainId_def by (auto simp: getProp_id_JArr update_conv')
  qed
qed (use assms in \<open>simp_all add: setProp_def\<close>)

subsection \<open>What a step returns\<close>

lemma ioPost_any: "ioPost (\<lambda>x. True) m"
  by (simp add: ioPost_def)

lemma ioPost_ret: "Q x \<Longrightarrow> ioPost Q (ret x)"
  by (simp add: ioPost_def ret_def)

lemma ioPost_throw: "ioPost Q (throw e)"
  by (simp add: ioPost_def throw_def)

lemma ioPost_bnd: "(\<And>x. ioPost Q (f x)) \<Longrightarrow> ioPost Q (bnd m f)"
  by (auto simp: ioPost_def bnd_def split: prod.splits sum.splits)

lemma ioPost_assign: "(\<And>v'. setProp v k x = Inr v' \<Longrightarrow> Q v') \<Longrightarrow> ioPost Q (assign v k x)"
  by (auto simp: ioPost_def assign_def lift_def)

lemma ioPost_push:
  assumes "plainId v" and "k \<noteq> ''id''"
  shows "ioPost plainId (push v k x)"
proof (cases "getProp v k")
  case (JArr xs ps)
  have "ioPost plainId (assign v k (JArr (xs @ [x]) ps))"
    using assms by (auto intro!: ioPost_assign elim: plainId_setProp)
  with JArr show ?thesis by (simp add: push_def)
qed (simp_all add: push_def ioPost_throw)

lemma ioPost_createExistingRelated:
  assumes "plainId newEntity" and "code p \<noteq> ''id''"
  shows "ioPost plainId (createExistingRelated X tda p i newEntity)"
  unfolding createExistingRelated_def
  by (intro ioPost_bnd) (auto intro!: ioPost_bnd ioPost_throw ioPost_push[OF assms])

lemma ioPost_accessorCreate:
  assumes "plainId row"
  shows "ioPost plainId (accessorCreate c row)"
  unfolding ioPost_def
proof (intro allI impI)
  fix s x s' assume h: "accessorCreate c row s = (Inr x, s')"
  hence "x = row \<or> setProp row ''id'' (JNum (nextId s)) = Inr x"
    by (auto simp: accessorCreate_def bnd_def logCall_def split: if_splits sum.splits)
  thus "plainId x"
  proof
    assume "x = row" with assms show ?thesis by simp
  next
    assume "setProp row ''id'' (JNum (nextId s)) = Inr x"
    from plainId_setProp[OF assms _ this] show ?thesis by simp
  qed
qed

subsection \<open>No step changes the registered accessors\<close>

lemma sameAccessors_pre: "reflp sameAccessors" "transp sameAccessors"
  by (auto simp: sameAccessors_def reflp_def transp_def)

lemma sameAccessors_getDataAccessor: "ioSteps sameAccessors (getDataAccessor c)"
  by (auto simp: ioSteps_def sameAccessors_def getDataAccessor_def bnd_def logCall_def split: option.splits)

lemma sameAccessors_accessorCreate: "ioSteps sameAccessors (accessorCreate c row)"
  by (auto simp: ioSteps_def sameAccessors_def accessorCreate_def bnd_def logCall_def split: sum.splits)

lemma sameAccessors_accessorFindById: "ioSteps sameAccessors (accessorFindById c i)"
  by (auto simp: ioSteps_def sameAccessors_def accessorFindById_def bnd_def logCall_def)

lemma sameAccessors_accessorUpdateById: "ioSteps sameAccessors (accessorUpdateById c i partial)"
  by (auto simp: ioSteps_def sameAccessors_def accessorUpdateById_def bnd_def logCall_def Let_def)

lemma sameAccessors_runStatement: "accessors (snd (runStatement X stmt ps s)) = accessors s"
  by (cases stmt) (auto simp: setLinkRows_def Let_def)

lemma sameAccessors_queryDatabaseObject: "ioSteps sameAccessors (queryDatabaseObject X stmt ps)"
proof -
  have "\<And>s. accessors (snd (queryDatabaseObject X stmt ps s)) = accessors s"
  proof -
    fix s :: world
    let ?s1 = "s\<lparr>calls := calls s @ [QueryDatabaseObject stmt ps]\<rparr>"
    have "snd (queryDatabaseObject X stmt ps s) = snd (runStatement X stmt ps ?s1)"
      by (simp add: queryDatabaseObject_def bnd_def logCall_def split: prod.splits)
    then show "accessors (snd (queryDatabaseObject X stmt ps s)) = accessors s"
      using sameAccessors_runStatement[of X stmt ps ?s1] by simp
  qed
  then show ?thesis by (simp add: ioSteps_def sameAccessors_def)
qed

lemma sameAccessors_assign: "ioSteps sameAccessors (assign v k x)"
  by (simp add: assign_def ioSteps_lift sameAccessors_pre)

lemma sameAccessors_readProp: "ioSteps sameAccessors (readProp v k)"
  by (simp add: readProp_def ioSteps_ret ioSteps_throw sameAccessors_pre)

lemma sameAccessors_push: "ioSteps sameAccessors (push v k x)"
  by (auto simp: push_def sameAccessors_assign ioSteps_throw sameAccessors_pre split: jvalue.splits)

lemma sameAccessors_insertLink: "ioSteps sameAccessors (insertLink X p a b)"
  by (simp add: insertLink_def sameAccessors_queryDatabaseObject)

lemma sameAccessors_emitEvent: "ioSteps sameAccessors (emitEvent e pl)"
  by (simp add: ioSteps_def sameAccessors_def emitEvent_def)

lemmas sameAccessors_intros =
  ioSteps_ret[OF sameAccessors_pre(1)] ioSteps_throw[OF sameAccessors_pre(1)]
  ioSteps_bnd[OF sameAccessors_pre(2)] ioSteps_if
  sameAccessors_getDataAccessor sameAccessors_accessorCreate sameAccessors_accessorFindById
  sameAccessors_accessorUpdateById sameAccessors_queryDatabaseObject sameAccessors_assign
  sameAccessors_readProp sameAccessors_push sameAccessors_insertLink sameAccessors_emitEvent

lemma sameAccessors_createExistingRelated:
  "ioSteps sameAccessors (createExistingRelated X tda p rid newEntity)"
  unfolding createExistingRelated_def
  by (intro sameAccessors_intros)

subsection \<open>Computations that return\<close>

lemma pioReturns_run:
  assumes "ioSteps sameAccessors m" and "ioPost Q m"
  shows "pioReturns X Q (run m)"
  unfolding pioReturns_def
proof (intro allI impI)
  fix s assume g: "goodAccessors X s"
  obtain r s' where m: "m s = (r, s')" by (cases "m s")
  from assms(1) m have "accessors s' = accessors s"
    by (auto simp: ioSteps_def sameAccessors_def dest: spec[where x = s])
  with g have "goodAccessors X s'" by (simp add: goodAccessors_def)
  moreover from assms(2) m have "\<forall>x. r = Inr x \<longrightarrow> Q x" by (auto simp: ioPost_def)
  ultimately show "\<exists>r s'. run m s = Some (r, s') \<and> goodAccessors X s' \<and> (\<forall>x. r = Inr x \<longrightarrow> Q x)"
    using m by (simp add: run_def)
qed

lemma pioReturns_getDataAccessor:
  "pioReturns X (\<lambda>da. goodProperties X (snd da)) (run (getDataAccessor c))"
  unfolding pioReturns_def
proof (intro allI impI)
  fix s assume g: "goodAccessors X s"
  let ?s1 = "s\<lparr>calls := calls s @ [GetDataAccessor c]\<rparr>"
  from g have g1: "goodAccessors X ?s1" by (simp add: goodAccessors_def)
  have "\<exists>r. getDataAccessor c s = (r, ?s1) \<and> (\<forall>da. r = Inr da \<longrightarrow> goodProperties X (snd da))"
  proof (cases c)
    case None
    thus ?thesis by (simp add: getDataAccessor_def bnd_def logCall_def)
  next
    case (Some k)
    note c = Some
    show ?thesis
    proof (cases "map_of (accessors s) k")
      case None
      with c show ?thesis by (simp add: getDataAccessor_def bnd_def logCall_def)
    next
      case (Some m)
      hence "(k, m) \<in> set (accessors s)" by (rule map_of_SomeD)
      with g have "goodProperties X m" by (auto simp: goodAccessors_def list_all_iff)
      with Some c show ?thesis by (simp add: getDataAccessor_def bnd_def logCall_def)
    qed
  qed
  with g1 show "\<exists>r s'. run (getDataAccessor c) s = Some (r, s') \<and> goodAccessors X s'
                  \<and> (\<forall>x. r = Inr x \<longrightarrow> goodProperties X (snd x))"
    by (auto simp: run_def)
qed

lemma pioReturns_pbnd:
  assumes "pioReturns X P m" and "\<And>x. P x \<Longrightarrow> pioReturns X Q (f x)"
  shows "pioReturns X Q (pbnd m f)"
  unfolding pioReturns_def
proof (intro allI impI)
  fix s assume g: "goodAccessors X s"
  with assms(1) obtain r s' where m: "m s = Some (r, s')" and g': "goodAccessors X s'"
    and p: "\<forall>x. r = Inr x \<longrightarrow> P x"
    unfolding pioReturns_def by blast
  show "\<exists>r s'. pbnd m f s = Some (r, s') \<and> goodAccessors X s' \<and> (\<forall>x. r = Inr x \<longrightarrow> Q x)"
  proof (cases r)
    case (Inl e)
    with m g' show ?thesis by (simp add: pbnd_def)
  next
    case (Inr x)
    with p have "P x" by simp
    from assms(2)[OF this] g' obtain r2 s2 where "f x s' = Some (r2, s2)" and "goodAccessors X s2"
      and "\<forall>y. r2 = Inr y \<longrightarrow> Q y"
      unfolding pioReturns_def by blast
    with m Inr show ?thesis by (simp add: pbnd_def)
  qed
qed

lemma pioReturns_weaken: "pioReturns X P m \<Longrightarrow> (\<And>x. P x \<Longrightarrow> Q x) \<Longrightarrow> pioReturns X Q m"
  unfolding pioReturns_def by blast

lemma pioReturns_forEachP:
  assumes "\<And>x acc. x \<in> set xs \<Longrightarrow> I acc \<Longrightarrow> pioReturns X I (f x acc)" and "I acc"
  shows "pioReturns X I (forEachP f xs acc)"
  using assms
proof (induction xs arbitrary: acc)
  case Nil
  thus ?case by (simp add: pioReturns_def run_def ret_def)
next
  case (Cons y ys)
  show ?case
    unfolding forEachP.simps
  proof (rule pioReturns_pbnd)
    show "pioReturns X I (f y acc)" using Cons.prems by simp
  next
    fix x assume "I x"
    thus "pioReturns X I (forEachP f ys x)" using Cons.IH Cons.prems(1) by simp
  qed
qed

subsection \<open>The steps of the cascading create return\<close>

lemma find_member: "List.find P xs = Some x \<Longrightarrow> x \<in> set xs"
  by (induction xs) (auto split: if_splits)

lemma found_properties:
  "p \<in> set (List.map_filter
              (\<lambda>c. case List.find (\<lambda>e. code e = c) ps of
                     None \<Rightarrow> None
                   | Some q \<Rightarrow> if P q then Some q else None) ks)
   \<Longrightarrow> p \<in> set ps \<and> P p"
proof (induction ks)
  case Nil
  thus ?case by simp
next
  case (Cons k ks)
  show ?case
  proof (cases "List.find (\<lambda>e. code e = k) ps")
    case None
    with Cons show ?thesis by simp
  next
    case (Some q)
    from find_member[OF Some] have "q \<in> set ps" .
    with Cons Some show ?thesis by (auto split: if_splits)
  qed
qed

lemma relationProperties_good:
  assumes "goodProperties X m"
    and "p \<in> set (oneRelationProperties X m e) \<or> p \<in> set (manyRelationProperties X m e)"
  shows "code p \<noteq> ''id'' \<and> keyOf (targetIdColumnName p) \<noteq> ''id''"
proof -
  from assms(2) have "p \<in> set (properties m) \<and> isRelationProperty X p"
    unfolding oneRelationProperties_def manyRelationProperties_def
    by (auto dest: found_properties)
  with assms(1) show ?thesis by (auto simp: goodProperties_def list_all_iff)
qed

lemma returns_saveOneRelation:
  assumes create: "\<And>da e. goodProperties X (snd da) \<Longrightarrow> plainId e \<Longrightarrow> objCount e < objCount entity
                     \<Longrightarrow> pioReturns X plainId (create da e)"
    and row: "plainId row" and key: "keyOf (targetIdColumnName p) \<noteq> ''id''"
  shows "pioReturns X plainId (saveOneRelation create entity p row)"
proof -
  have a: "\<And>x. pioReturns X plainId (run (assign row (keyOf (targetIdColumnName p)) x))"
    using row key
    by (auto intro!: pioReturns_run sameAccessors_assign ioPost_assign elim: plainId_setProp)
  show ?thesis
  proof (cases "isObject (getProp entity (code p)) \<and> \<not> truthy (getProp (getProp entity (code p)) ''id'')")
    case False
    thus ?thesis
      unfolding saveOneRelation_def Let_def by (auto intro!: a)
  next
    case True
    hence c: "goodProperties X (snd da) \<Longrightarrow> pioReturns X plainId (create da (getProp entity (code p)))" for da
      by (intro create plainId_falsy objCount_getProp) simp_all
    from True have e: "saveOneRelation create entity p row =
        pbnd (run (getDataAccessor (targetSingularCode p))) (\<lambda>targetDataAccessor.
        pbnd (create targetDataAccessor (getProp entity (code p))) (\<lambda>newTargetEntity.
        pbnd (run (readProp newTargetEntity ''id'')) (\<lambda>newId.
        run (assign row (keyOf (targetIdColumnName p)) newId))))"
      by (simp add: saveOneRelation_def Let_def)
    show ?thesis
      unfolding e
    proof (rule pioReturns_pbnd[OF pioReturns_getDataAccessor])
      fix tda :: "string \<times> model" assume "goodProperties X (snd tda)"
      from c[OF this] have c': "pioReturns X (\<lambda>x. True) (create tda (getProp entity (code p)))"
        by (rule pioReturns_weaken) simp
      show "pioReturns X plainId
              (pbnd (create tda (getProp entity (code p))) (\<lambda>newTargetEntity.
               pbnd (run (readProp newTargetEntity ''id'')) (\<lambda>newId.
               run (assign row (keyOf (targetIdColumnName p)) newId))))"
        by (intro pioReturns_pbnd[OF c']
              pioReturns_pbnd[OF pioReturns_run[OF sameAccessors_readProp ioPost_any]] a)
    qed
  qed
qed

lemma returns_createRelatedEntity:
  assumes create: "\<And>e. plainId e \<Longrightarrow> objCount e \<le> objCount rel \<Longrightarrow> pioReturns X plainId (create tda e)"
    and new: "plainId newEntity" and key: "code p \<noteq> ''id''"
  shows "pioReturns X plainId (createRelatedEntity create X tda p rel newEntity)"
proof (cases "isObject rel \<and> \<not> truthy (getProp rel ''id'')")
  case False
  thus ?thesis
    unfolding createRelatedEntity_def
    by (auto intro!: pioReturns_run sameAccessors_createExistingRelated
                     ioPost_createExistingRelated[OF new key])
next
  case True
  let ?P = "\<lambda>e. plainId e \<and> objCount e \<le> objCount rel"
  let ?first = "if \<not> present (linkTableName p)
                then assign rel (keyOf (selfIdColumnName p)) (getProp newEntity ''id'')
                else ret rel"
  from new have o: "objCount (getProp newEntity ''id'') = 0"
    by (simp add: plainId_def objCount_isObject)
  from new have n: "\<not> isObject (getProp newEntity ''id'')" by (simp add: plainId_def)
  from True have r: "plainId rel" by (simp add: plainId_falsy)
  have "ioPost ?P (assign rel (keyOf (selfIdColumnName p)) (getProp newEntity ''id''))"
  proof (rule ioPost_assign, rule conjI)
    fix v' assume h: "setProp rel (keyOf (selfIdColumnName p)) (getProp newEntity ''id'') = Inr v'"
    from plainId_setProp[OF r _ h] n show "plainId v'" by simp
    from objCount_setProp[OF h] o show "objCount v' \<le> objCount rel" by simp
  qed
  with r have "ioPost ?P ?first" by (simp add: ioPost_ret)
  moreover have "ioSteps sameAccessors ?first" by (intro sameAccessors_intros)
  ultimately have first: "pioReturns X ?P (run ?first)" by (intro pioReturns_run)
  have link: "pioReturns X (\<lambda>x. True)
                (run (if present (linkTableName p)
                      then bnd (readProp newTargetEntity ''id'') (\<lambda>newTargetId.
                           insertLink X p (getProp newEntity ''id'') newTargetId)
                      else ret []))" for newTargetEntity
    by (intro pioReturns_run ioPost_any sameAccessors_intros)
  have last: "pioReturns X plainId (run (push newEntity (code p) newTargetEntity))" for newTargetEntity
    by (intro pioReturns_run sameAccessors_push ioPost_push[OF new key])
  from True have e: "createRelatedEntity create X tda p rel newEntity =
          pbnd (run ?first) (\<lambda>targetEntity.
          pbnd (create tda targetEntity) (\<lambda>newTargetEntity.
          pbnd (run (if present (linkTableName p)
                     then bnd (readProp newTargetEntity ''id'') (\<lambda>newTargetId.
                          insertLink X p (getProp newEntity ''id'') newTargetId)
                     else ret [])) (\<lambda>_.
          run (push newEntity (code p) newTargetEntity))))"
    by (simp add: createRelatedEntity_def)
  show ?thesis
    unfolding e
  proof (rule pioReturns_pbnd[OF first])
    fix targetEntity assume t: "?P targetEntity"
    hence "pioReturns X plainId (create tda targetEntity)" by (intro create) simp_all
    hence c: "pioReturns X (\<lambda>x. True) (create tda targetEntity)"
      by (rule pioReturns_weaken) simp
    show "pioReturns X plainId
           (pbnd (create tda targetEntity) (\<lambda>newTargetEntity.
            pbnd (run (if present (linkTableName p)
                       then bnd (readProp newTargetEntity ''id'') (\<lambda>newTargetId.
                            insertLink X p (getProp newEntity ''id'') newTargetId)
                       else ret [])) (\<lambda>_.
            run (push newEntity (code p) newTargetEntity))))"
      by (intro pioReturns_pbnd[OF c] pioReturns_pbnd[OF link] last)
  qed
qed

lemma returns_saveManyRelation:
  assumes create: "\<And>da e. goodProperties X (snd da) \<Longrightarrow> plainId e \<Longrightarrow> objCount e < objCount entity
                     \<Longrightarrow> pioReturns X plainId (create da e)"
    and new: "plainId newEntity" and key: "code p \<noteq> ''id''"
  shows "pioReturns X plainId (saveManyRelation create X entity p newEntity)"
  unfolding saveManyRelation_def
proof (rule pioReturns_pbnd[where P = plainId])
  show "pioReturns X plainId (run (assign newEntity (code p) (JArr [] [])))"
    using new key
    by (auto intro!: pioReturns_run sameAccessors_assign ioPost_assign elim: plainId_setProp)
next
  fix newEntity1 assume n1: "plainId newEntity1"
  show "pioReturns X plainId
          (pbnd (run (getDataAccessor (targetSingularCode p))) (\<lambda>targetDataAccessor.
           case getProp entity (code p) of
             JArr relatedEntitiesToBeSaved ps \<Rightarrow>
               forEachP (createRelatedEntity create X targetDataAccessor p) relatedEntitiesToBeSaved newEntity1
           | _ \<Rightarrow> run (throw (FieldShouldBeArray (code p)))))"
  proof (rule pioReturns_pbnd[OF pioReturns_getDataAccessor])
    fix tda :: "string \<times> model" assume good: "goodProperties X (snd tda)"
    have t: "pioReturns X plainId (run (throw (FieldShouldBeArray (code p))))"
      by (intro pioReturns_run ioPost_throw sameAccessors_intros)
    show "pioReturns X plainId
            (case getProp entity (code p) of
               JArr relatedEntitiesToBeSaved ps \<Rightarrow>
                 forEachP (createRelatedEntity create X tda p) relatedEntitiesToBeSaved newEntity1
             | _ \<Rightarrow> run (throw (FieldShouldBeArray (code p))))"
    proof (cases "getProp entity (code p)")
      case (JArr rels ps)
      hence "isObject (getProp entity (code p))" by simp
      from objCount_getProp[OF this] JArr have lt: "objCount (JArr rels ps) < objCount entity" by simp
      have "pioReturns X plainId (forEachP (createRelatedEntity create X tda p) rels newEntity1)"
      proof (rule pioReturns_forEachP[where I = plainId])
        show "plainId newEntity1" by (rule n1)
      next
        fix rel acc assume m: "rel \<in> set rels" and a: "plainId acc"
        from objCount_element[OF m, of ps] lt have "objCount rel < objCount entity" by simp
        thus "pioReturns X plainId (createRelatedEntity create X tda p rel acc)"
          by (intro returns_createRelatedEntity create good a key) simp_all
      qed
      with JArr show ?thesis by simp
    qed (simp_all add: t)
  qed
qed

lemma createEntity_pioReturns:
  assumes X: "plainMapping X"
  shows "goodProperties X (snd dataAccessor) \<Longrightarrow> plainId entity \<Longrightarrow> objCount entity < n
           \<Longrightarrow> pioReturns X plainId (createEntity n X dataAccessor entity)"
proof (induction n arbitrary: entity dataAccessor)
  case 0
  thus ?case by simp
next
  case (Suc n)
  have create: "\<And>da e. goodProperties X (snd da) \<Longrightarrow> plainId e \<Longrightarrow> objCount e < objCount entity
                  \<Longrightarrow> pioReturns X plainId (createEntity n X da e)"
    using Suc.prems(3) by (intro Suc.IH) simp_all
  from X have toRow: "\<And>m e. plainId e \<Longrightarrow> plainId (mapEntityToDbRow X m e)"
    and toEntity: "\<And>m row k. plainId row \<Longrightarrow> plainId (mapDbRowToEntity X m row k)"
    unfolding plainMapping_def by blast+
  note keys = relationProperties_good[OF Suc.prems(1)]
  show ?case
    unfolding createEntity.simps createEntityBody_def Let_def
  proof (rule pioReturns_pbnd[where P = plainId])
    show "pioReturns X plainId
            (forEachP (saveOneRelation (createEntity n X) entity)
               (oneRelationProperties X (snd dataAccessor) entity)
               (mapEntityToDbRow X (snd dataAccessor) entity))"
    proof (rule pioReturns_forEachP[where I = plainId])
      show "plainId (mapEntityToDbRow X (snd dataAccessor) entity)"
        using Suc.prems(2) by (rule toRow)
    next
      fix p acc
      assume "p \<in> set (oneRelationProperties X (snd dataAccessor) entity)" and a: "plainId acc"
      hence "keyOf (targetIdColumnName p) \<noteq> ''id''" using keys by blast
      with a show "pioReturns X plainId (saveOneRelation (createEntity n X) entity p acc)"
        by (intro returns_saveOneRelation create)
    qed
  next
    fix row assume row: "plainId row"
    show "pioReturns X plainId
            (pbnd (run (accessorCreate (fst dataAccessor) row)) (\<lambda>newRow.
             forEachP (saveManyRelation (createEntity n X) X entity)
               (manyRelationProperties X (snd dataAccessor) entity)
               (mapDbRowToEntity X (Some (snd dataAccessor)) newRow (Some False))))"
    proof (rule pioReturns_pbnd[where P = plainId])
      show "pioReturns X plainId (run (accessorCreate (fst dataAccessor) row))"
        using row by (intro pioReturns_run sameAccessors_accessorCreate ioPost_accessorCreate)
    next
      fix newRow assume newRow: "plainId newRow"
      show "pioReturns X plainId
              (forEachP (saveManyRelation (createEntity n X) X entity)
                 (manyRelationProperties X (snd dataAccessor) entity)
                 (mapDbRowToEntity X (Some (snd dataAccessor)) newRow (Some False)))"
      proof (rule pioReturns_forEachP[where I = plainId])
        show "plainId (mapDbRowToEntity X (Some (snd dataAccessor)) newRow (Some False))"
          using newRow by (rule toEntity)
      next
        fix p acc
        assume "p \<in> set (manyRelationProperties X (snd dataAccessor) entity)" and a: "plainId acc"
        hence "code p \<noteq> ''id''" using keys by blast
        with a show "pioReturns X plainId (saveManyRelation (createEntity n X) X entity p acc)"
          by (intro returns_saveManyRelation create)
      qed
    qed
  qed
qed

lemma createEntity_returns:
  assumes "plainMapping X" and "goodAccessors X s" and "goodProperties X (snd dataAccessor)"
    and "plainId entity" and "objCount entity < n"
  shows "\<exists>r s'. createEntity n X dataAccessor entity s = Some (r, s')"
  using createEntity_pioReturns[OF assms(1,3,4,5)] assms(2) unfolding pioReturns_def by blast

lemma EntityManager_createEntity_returns:
  assumes "plainMapping X" and "goodAccessors X s" and "goodProperties X (snd dataAccessor)"
    and "plainId entity" and "objCount entity < n"
  shows "\<exists>r s'. EntityManager_createEntity n X dataAccessor entity pl s = Some (r, s')"
proof -
  have c: "pioReturns X (\<lambda>x. True) (createEntity n X dataAccessor entity)"
    by (rule pioReturns_weaken[OF createEntity_pioReturns[OF assms(1,3,4,5)]]) simp
  have "pioReturns X (\<lambda>x. True) (EntityManager_createEntity n X dataAccessor entity pl)"
    unfolding EntityManager_createEntity_def Let_def
    by (intro pioReturns_pbnd[OF c] pioReturns_pbnd[where P = "\<lambda>x. True"]
          pioReturns_run sameAccessors_emitEvent ioPost_any sameAccessors_intros)
  with assms(2) show ?thesis unfolding pioReturns_def by blast
qed

subsection \<open>The blog schema meets the conditions\<close>

lemma map_of_filter_kept:
  "P k \<Longrightarrow> map_of (filter (\<lambda>kv. P (fst kv)) xs) k = map_of xs k"
  by (induction xs) auto

lemma plainMapping_blog: "plainMapping blogExternals"
proof -
  have "plainId (JObj (filter (\<lambda>kv. fst kv \<notin> {''author'', ''comments'', ''tags''}) (entries e)))"
    if e: "plainId e" for e
  proof -
    have "map_of (filter (\<lambda>kv. fst kv \<notin> {''author'', ''comments'', ''tags''}) (entries e)) ''id''
            = map_of (entries e) ''id''"
      by (rule map_of_filter_kept) simp
    moreover have "\<not> isObject x" if "map_of (entries e) ''id'' = Some x" for x
      using e that by (simp add: plainId_def getProp_def)
    ultimately show ?thesis
      by (auto simp: plainId_def getProp_id_JObj split: option.splits)
  qed
  thus ?thesis by (simp add: plainMapping_def blogExternals_simps)
qed

lemma goodProperties_blog:
  "goodProperties blogExternals postModel" "goodProperties blogExternals userModel"
  "goodProperties blogExternals commentModel" "goodProperties blogExternals tagModel"
  by (simp_all add: goodProperties_def blog_simps keyOf_def)

lemma goodAccessors_blog: "goodAccessors blogExternals blogWorld"
  by (simp add: goodAccessors_def goodProperties_blog blogWorld_def)


section \<open>One event for a cascading create\<close>


text \<open>
  Claim C10. The recursive \<^verbatim>\<open>createEntity\<close> helper emits no event, however many
  related entities it creates on the way, and \<^verbatim>\<open>EntityManager.createEntity\<close> adds
  exactly one \<^verbatim>\<open>entity.create\<close> event, for the top-level entity, when it returns (and
  none when it throws). The call has a result whenever the recursion bound exceeds the
  number of objects in the entity, the ids involved are not objects and no relation
  property of a registered model is called \<^verbatim>\<open>id\<close> or stored in a column \<^verbatim>\<open>id\<close>.
\<close>

theorem createEntity_emits_exactly_one_event:
  "(createEntity n X dataAccessor entity s = Some (r, s') \<longrightarrow> events s' = events s)
   \<and> (EntityManager_createEntity n X dataAccessor entity pl s = Some (r', s'') \<longrightarrow>
        events s'' = events s @
          (case r' of
             Inl e \<Rightarrow> []
           | Inr newEntity \<Rightarrow>
               [(EntityCreate (namespace (snd dataAccessor)) (singularCode (snd dataAccessor)) newEntity, pl)]))
   \<and> (plainMapping X \<and> goodAccessors X s \<and> goodProperties X (snd dataAccessor)
        \<and> plainId entity \<and> objCount entity < n \<longrightarrow>
        (\<exists>res t. EntityManager_createEntity n X dataAccessor entity pl s = Some (res, t)))"
proof (intro conjI impI)
  assume "createEntity n X dataAccessor entity s = Some (r, s')"
  with sameEvents_createEntity[of n X dataAccessor entity] show "events s' = events s"
    by (auto simp: pioSteps_def sameEvents_def)
next
  assume h: "EntityManager_createEntity n X dataAccessor entity pl s = Some (r', s'')"
  then obtain r1 s1 where c: "createEntity n X dataAccessor entity s = Some (r1, s1)"
    by (cases "createEntity n X dataAccessor entity s")
       (auto simp: EntityManager_createEntity_def pbnd_def Let_def)
  with sameEvents_createEntity[of n X dataAccessor entity] have e: "events s1 = events s"
    by (auto simp: pioSteps_def sameEvents_def)
  show "events s'' = events s @
          (case r' of
             Inl e \<Rightarrow> []
           | Inr newEntity \<Rightarrow>
               [(EntityCreate (namespace (snd dataAccessor)) (singularCode (snd dataAccessor)) newEntity, pl)])"
  proof (cases r1)
    case (Inl err)
    with h c e show ?thesis
      by (auto simp: EntityManager_createEntity_def pbnd_def Let_def)
  next
    case (Inr newEntity)
    with h c e show ?thesis
      by (auto simp: EntityManager_createEntity_def pbnd_def Let_def run_def emitEvent_def ret_def)
  qed
next
  assume "plainMapping X \<and> goodAccessors X s \<and> goodProperties X (snd dataAccessor)
            \<and> plainId entity \<and> objCount entity < n"
  thus "\<exists>res t. EntityManager_createEntity n X dataAccessor entity pl s = Some (res, t)"
    by (intro EntityManager_createEntity_returns) simp_all
qed

theorem createEntity_emits_exactly_one_event_witness:
  "plainMapping blogExternals \<and> goodAccessors blogExternals blogWorld
   \<and> goodProperties blogExternals postModel
   \<and> plainId (JObj [(''title'', JStr ''t2''), (''author'', JObj [(''name'', JStr ''bob'')]),
                    (''comments'', JArr [JObj [(''body'', JStr ''hi'')]] [])])
   \<and> objCount (JObj [(''title'', JStr ''t2''), (''author'', JObj [(''name'', JStr ''bob'')]),
                     (''comments'', JArr [JObj [(''body'', JStr ''hi'')]] [])]) < 5
   \<and> (\<exists>s'. EntityManager_createEntity 5 blogExternals (''post'', postModel)
          (JObj [(''title'', JStr ''t2''), (''author'', JObj [(''name'', JStr ''bob'')]),
                 (''comments'', JArr [JObj [(''body'', JStr ''hi'')]] [])]) None blogWorld
        = Some (Inr (JObj [(''title'', JStr ''t2''), (''author_id'', JNum 10), (''id'', JNum 11),
                           (''comments'', JArr [JObj [(''body'', JStr ''hi''), (''postId'', JNum 11),
                                                      (''id'', JNum 12)]] [])]), s')
      \<and> events s' =
          [(EntityCreate ''blog'' ''post''
              (JObj [(''title'', JStr ''t2''), (''author_id'', JNum 10), (''id'', JNum 11),
                     (''comments'', JArr [JObj [(''body'', JStr ''hi''), (''postId'', JNum 11),
                                                (''id'', JNum 12)]] [])]), None)]
      \<and> filter (\<lambda>c. case c of Create k row \<Rightarrow> True | _ \<Rightarrow> False) (calls s') =
          [Create ''user'' (JObj [(''name'', JStr ''bob'')]),
           Create ''post'' (JObj [(''title'', JStr ''t2''), (''author_id'', JNum 10)]),
           Create ''comment'' (JObj [(''body'', JStr ''hi''), (''postId'', JNum 11)])])"
proof -
  let ?e = "JObj [(''title'', JStr ''t2''), (''author'', JObj [(''name'', JStr ''bob'')]),
                 (''comments'', JArr [JObj [(''body'', JStr ''hi'')]] [])]"
  let ?n = "JObj [(''title'', JStr ''t2''), (''author_id'', JNum 10), (''id'', JNum 11),
                           (''comments'', JArr [JObj [(''body'', JStr ''hi''), (''postId'', JNum 11),
                                                      (''id'', JNum 12)]] [])]"
  have five: "(5::nat) = Suc (Suc (Suc (Suc (Suc 0))))" by simp
  have h: "plainMapping blogExternals \<and> goodAccessors blogExternals blogWorld
           \<and> goodProperties blogExternals (snd (''post'', postModel)) \<and> plainId ?e \<and> objCount ?e < 5"
    by (simp add: plainMapping_blog goodAccessors_blog goodProperties_blog plainId_def getProp_id_JObj)
  note t = createEntity_emits_exactly_one_event[of 5 blogExternals "(''post'', postModel)" ?e blogWorld]
  from t[of _ _ None] h obtain r s' where
    a: "EntityManager_createEntity 5 blogExternals (''post'', postModel) ?e None blogWorld = Some (r, s')"
    by blast
  have b: "r = Inr ?n"
    and c: "filter (\<lambda>c. case c of Create k row \<Rightarrow> True | _ \<Rightarrow> False) (calls s') =
          [Create ''user'' (JObj [(''name'', JStr ''bob'')]),
           Create ''post'' (JObj [(''title'', JStr ''t2''), (''author_id'', JNum 10)]),
           Create ''comment'' (JObj [(''body'', JStr ''hi''), (''postId'', JNum 11)])]"
    using a[symmetric] by (simp_all add: five run_simps blog_simps)
  from t[of r s' None r s'] a b
  have "events s' = [(EntityCreate ''blog'' ''post'' ?n, None)]"
    by (simp add: blogWorld_def postModel_def)
  with a b c h show ?thesis by auto
qed


section \<open>Relation expansion and unregistered target models\<close>

lemma snd_assign [simp]: "snd (assign v k x s) = s"
  by (simp add: assign_def lift_def)





lemmas find_simps =
  findEntities_def[THEN fun_cong] findEntity_def[THEN fun_cong] findById_def[THEN fun_cong]
  expandRelation_def[THEN fun_cong] findManyRelationLinksViaLinkTable_def[THEN fun_cong]
  findManyRelatedEntitiesViaIdPropertyCode_def[THEN fun_cong]
  findOneRelatedEntitiesViaIdPropertyCode_def[THEN fun_cong]
  convertToDataAccessOrderBy_def uniq_def noOptions_def firstOf_def relatedEntitiesOptions_def


section \<open>Adding and removing relations\<close>






lemma linkRowsOf_calls [simp]: "linkRowsOf (s\<lparr>calls := c\<rparr>) t = linkRowsOf s t"
  by (simp add: linkRowsOf_def)

lemma linkRowsOf_events [simp]: "linkRowsOf (s\<lparr>events := c\<rparr>) t = linkRowsOf s t"
  by (simp add: linkRowsOf_def)

lemma rowsOf_calls [simp]: "rowsOf (s\<lparr>calls := c\<rparr>) t = rowsOf s t"
  by (simp add: rowsOf_def)

lemma rowsOf_events [simp]: "rowsOf (s\<lparr>events := c\<rparr>) t = rowsOf s t"
  by (simp add: rowsOf_def)

lemma rowsOf_setLinkRows [simp]: "rowsOf (setLinkRows t rows s) c = rowsOf s c"
  by (simp add: rowsOf_def setLinkRows_def)















section \<open>Many relations on update\<close>




lemma pbnd_run_throw: "pbnd (run (throw e)) g = run (throw e)"
  by (rule ext) (auto simp: pbnd_def run_def throw_def)

lemma run_bnd: "run (bnd m f) = pbnd (run m) (\<lambda>x. run (f x))"
  by (rule ext) (auto simp: pbnd_def run_def bnd_def split: option.splits prod.splits sum.splits)

lemma pbnd_if: "pbnd (if c then a else b) g = (if c then pbnd a g else pbnd b g)"
  by simp






































lemma pbnd_run_ret_right: "pbnd m (\<lambda>x. run (ret x)) = m"
  by (rule ext) (auto simp: pbnd_def run_def ret_def split: option.splits prod.splits sum.splits)




















section \<open>One relations on update\<close>

text \<open>
  Claim C3 does not hold of the code. The body of
  \<^verbatim>\<open>oneRelationPropertiesToUpdate.forEach\<close> (lines 593-600) writes \<^verbatim>\<open>fieldValue["id"]\<close>
  of an embedded object into the foreign-key column whether or not the object has an id,
  and never creates anything: the state is the one before. On the blog schema, updating
  post 1 with \<^verbatim>\<open>{author: {name: "bob"}}\<close> sends
  \<^verbatim>\<open>updateById(1, {author_id: undefined})\<close> and creates no user, whereas
  \<^verbatim>\<open>createEntity\<close> with the same \<^verbatim>\<open>author\<close> creates the user first and stores its
  new id (lines 451-470).
\<close>

theorem update_does_not_create_embedded_one_relation:
  "updateOneRelation changes p row s =
     (setProp row (keyOf (targetIdColumnName p))
        (if isObject (getProp changes (code p)) then getProp (getProp changes (code p)) ''id''
         else getProp changes (code p)), s)
   \<and> map_option (\<lambda>(r, s'). (r, calls s', rowsOf s' ''post'', rowsOf s' ''user''))
        (updateEntityById 2 blogExternals (''post'', postModel) (JNum 1)
           (JObj [(''author'', JObj [(''name'', JStr ''bob'')])]) None blogWorld)
      = Some (Inr (JObj [(''id'', JNum 1), (''title'', JStr ''hello''), (''author_id'', JUndefined)]),
              [Find ''post'' (byIdOptions (JNum 1)),
               UpdateById ''post'' (JNum 1) (JObj [(''author_id'', JUndefined)])],
              [JObj [(''id'', JNum 1), (''title'', JStr ''hello''), (''author_id'', JUndefined)]],
              [JObj [(''id'', JNum 2), (''name'', JStr ''ann'')]])
   \<and> map_option (\<lambda>(r, s'). (r, calls s', rowsOf s' ''post'', rowsOf s' ''user''))
        (createEntity 2 blogExternals (''post'', postModel)
           (JObj [(''author'', JObj [(''name'', JStr ''bob'')])]) blogWorld)
      = Some (Inr (JObj [(''author_id'', JNum 10), (''id'', JNum 11)]),
              [GetDataAccessor (Some ''user''),
               Create ''user'' (JObj [(''name'', JStr ''bob'')]),
               Create ''post'' (JObj [(''author_id'', JNum 10)])],
              [JObj [(''id'', JNum 1), (''title'', JStr ''hello''), (''author_id'', JNum 2)],
               JObj [(''author_id'', JNum 10), (''id'', JNum 11)]],
              [JObj [(''id'', JNum 2), (''name'', JStr ''ann'')],
               JObj [(''name'', JStr ''bob''), (''id'', JNum 10)]])"
proof -
  have a: "updateOneRelation changes p row s =
     (setProp row (keyOf (targetIdColumnName p))
        (if isObject (getProp changes (code p)) then getProp (getProp changes (code p)) ''id''
         else getProp changes (code p)), s)"
    by (simp add: updateOneRelation_def Let_def assign_def lift_def)
  have b: "map_option (\<lambda>(r, s'). (r, calls s', rowsOf s' ''post'', rowsOf s' ''user''))
        (updateEntityById 2 blogExternals (''post'', postModel) (JNum 1)
           (JObj [(''author'', JObj [(''name'', JStr ''bob'')])]) None blogWorld)
      = Some (Inr (JObj [(''id'', JNum 1), (''title'', JStr ''hello''), (''author_id'', JUndefined)]),
              [Find ''post'' (byIdOptions (JNum 1)),
               UpdateById ''post'' (JNum 1) (JObj [(''author_id'', JUndefined)])],
              [JObj [(''id'', JNum 1), (''title'', JStr ''hello''), (''author_id'', JUndefined)]],
              [JObj [(''id'', JNum 2), (''name'', JStr ''ann'')]])"
    by (simp add: numeral_2_eq_2 find_simps run_simps blog_simps byIdOptions_def)
  have c: "map_option (\<lambda>(r, s'). (r, calls s', rowsOf s' ''post'', rowsOf s' ''user''))
        (createEntity 2 blogExternals (''post'', postModel)
           (JObj [(''author'', JObj [(''name'', JStr ''bob'')])]) blogWorld)
      = Some (Inr (JObj [(''author_id'', JNum 10), (''id'', JNum 11)]),
              [GetDataAccessor (Some ''user''),
               Create ''user'' (JObj [(''name'', JStr ''bob'')]),
               Create ''post'' (JObj [(''author_id'', JNum 10)])],
              [JObj [(''id'', JNum 1), (''title'', JStr ''hello''), (''author_id'', JNum 2)],
               JObj [(''author_id'', JNum 10), (''id'', JNum 11)]],
              [JObj [(''id'', JNum 2), (''name'', JStr ''ann'')],
               JObj [(''name'', JStr ''bob''), (''id'', JNum 10)]])"
    by (simp add: numeral_2_eq_2 find_simps run_simps blog_simps)
  from a b c show ?thesis by simp
qed

end
